theory Spec2Isabelle
  imports Main "HOL-Library.AList"
begin

section \<open>Python values, strings and exceptions\<close>

text \<open>
  The development task runner \<^verbatim>\<open>tasks.py\<close> of \<^verbatim>\<open>nautobot-app-ssot\<close> assembles shell
  commands and hands them to Invoke's \<^verbatim>\<open>context.run\<close>. Every exception the modelled code
  can raise is a value of \<open>error\<close>: the \<^verbatim>\<open>ValueError\<close>s of the source carry their message,
  \<^verbatim>\<open>UnexpectedExit\<close> is what Invoke raises when a command exits with a non-zero status
  (it carries the command), and \<^verbatim>\<open>TypeError\<close> is what Python raises when a keyword
  argument has the wrong type (its message is not modelled).
\<close>

datatype error = ValueError string | UnexpectedExit string | TypeError

text \<open>
  The arguments \<^verbatim>\<open>is_truthy\<close> can receive. \<open>PyObj s\<close> stands for an object of any other
  type whose \<^verbatim>\<open>str()\<close> is \<open>s\<close>. Floats are left out.
\<close>

datatype pyval = PyBool bool | PyStr string | PyInt int | PyNone | PyObj string

definition digit_char :: "nat \<Rightarrow> char" where
  "digit_char n = ''0123456789'' ! (n mod 10)"

function string_of_nat :: "nat \<Rightarrow> string" where
  "string_of_nat n =
     (if n < 10 then [digit_char n] else string_of_nat (n div 10) @ [digit_char (n mod 10)])"
  by pat_completeness auto
termination
  by (relation "measure id") auto

declare string_of_nat.simps [simp del]

text \<open>Python's \<^verbatim>\<open>str(arg)\<close>.\<close>

fun py_str :: "pyval \<Rightarrow> string" where
  "py_str (PyBool b) = (if b then ''True'' else ''False'')"
| "py_str (PyStr s) = s"
| "py_str (PyInt i) = (if i < 0 then ''-'' @ string_of_nat (nat (- i)) else string_of_nat (nat i))"
| "py_str PyNone = ''None''"
| "py_str (PyObj s) = s"

text \<open>
  \<^verbatim>\<open>str.lower()\<close>. A \<open>string\<close> is a list of bytes; the ASCII capitals are mapped to their
  small letters and every other byte is kept. Python also lowers code points beyond ASCII;
  none of them is lowered to one of the letters of the twelve literals below, so the
  outcome of \<open>is_truthy\<close> is the same.
\<close>

definition lower_char :: "char \<Rightarrow> char" where
  "lower_char c =
     (case map_of (zip ''ABCDEFGHIJKLMNOPQRSTUVWXYZ'' ''abcdefghijklmnopqrstuvwxyz'') c of
        Some l \<Rightarrow> l
      | None \<Rightarrow> c)"

definition str_lower :: "string \<Rightarrow> string" where
  "str_lower s = map lower_char s"

text \<open>
  \<^verbatim>\<open>
  def is_truthy(arg):
      if isinstance(arg, bool):
          return arg
      val = str(arg).lower()
      if val in ("y", "yes", "t", "true", "on", "1"):
          return True
      elif val in ("n", "no", "f", "false", "off", "0"):
          return False
      else:
          raise ValueError(f"Invalid truthy value: `{arg}`")
  \<close>
\<close>

definition is_truthy :: "pyval \<Rightarrow> error + bool" where
  "is_truthy arg =
     (case arg of
        PyBool b \<Rightarrow> Inr b
      | _ \<Rightarrow>
          (let val = str_lower (py_str arg) in
           if val \<in> set [''y'', ''yes'', ''t'', ''true'', ''on'', ''1''] then Inr True
           else if val \<in> set [''n'', ''no'', ''f'', ''false'', ''off'', ''0''] then Inr False
           else Inl (ValueError (''Invalid truthy value: `'' @ py_str arg @ ''`''))))"


text \<open>
  \<^verbatim>\<open>str.strip()\<close> removes the (ASCII) white space at both ends, \<^verbatim>\<open>sep.join(tokens)\<close>
  glues a list of strings, \<^verbatim>\<open>needle in haystack\<close> looks for a substring, and
  \<^verbatim>\<open>os.path.join(a, b)\<close> is the POSIX one.
\<close>

definition is_space :: "char \<Rightarrow> bool" where
  "is_space c \<longleftrightarrow>
     c \<in> set [CHR 0x20, CHR 0x09, CHR 0x0A, CHR 0x0B, CHR 0x0C, CHR 0x0D,
               CHR 0x1C, CHR 0x1D, CHR 0x1E, CHR 0x1F]"

definition str_strip :: "string \<Rightarrow> string" where
  "str_strip s = rev (dropWhile is_space (rev (dropWhile is_space s)))"

fun str_join :: "string \<Rightarrow> string list \<Rightarrow> string" where
  "str_join sep [] = []"
| "str_join sep [x] = x"
| "str_join sep (x # y # ys) = x @ sep @ str_join sep (y # ys)"

fun str_contains :: "string \<Rightarrow> string \<Rightarrow> bool" where
  "str_contains needle [] = (needle = [])"
| "str_contains needle (c # cs) =
     (take (length needle) (c # cs) = needle \<or> str_contains needle cs)"

definition os_path_join :: "string \<Rightarrow> string \<Rightarrow> string" where
  "os_path_join a b =
     (if take 1 b = ''/'' then b
      else if a = [] \<or> last a = CHR ''/'' then a @ b
      else a @ ''/'' @ b)"

abbreviation apos :: string where
  "apos \<equiv> [CHR 0x27]"

section \<open>The Invoke context and the outside world\<close>

text \<open>
  The configuration the tasks read from \<^verbatim>\<open>context.nautobot_ssot\<close>. \<^verbatim>\<open>local\<close> is a Python
  value (the default is \<^verbatim>\<open>False\<close>; \<^verbatim>\<open>invoke.yml\<close> or the environment may set a string),
  which is why the tasks pass it through \<open>is_truthy\<close>.
\<close>

record nautobot_ssot =
  nautobot_ver :: string
  project_name :: string
  python_ver :: string
  local :: pyval
  compose_dir :: string
  compose_files :: "string list"
  compose_http_timeout :: string

text \<open>
  The defaults of \<^verbatim>\<open>namespace.configure\<close>; \<open>tasks_dir\<close> is \<^verbatim>\<open>os.path.dirname(__file__)\<close>.
\<close>

definition default_config :: "string \<Rightarrow> nautobot_ssot" where
  "default_config tasks_dir =
     \<lparr>nautobot_ver = ''2.1.0'',
      project_name = ''nautobot-ssot'',
      python_ver = ''3.11'',
      local = PyBool False,
      compose_dir = os_path_join tasks_dir ''development'',
      compose_files =
        [''docker-compose.base.yml'', ''docker-compose.redis.yml'',
         ''docker-compose.postgres.yml'', ''docker-compose.dev.yml''],
      compose_http_timeout = ''86400''\<rparr>"

text \<open>
  Keyword arguments are an association list in the order they were given. What happens
  outside the Python process is an \<open>event\<close>: a line printed, an external command started
  through \<^verbatim>\<open>context.run\<close> (with the keyword arguments it was given), or a \<^verbatim>\<open>sleep\<close>.
  The trace of a run is the list of its events, oldest first.
\<close>

datatype kwval = KwBool bool | KwStr string | KwDict "(string \<times> string) list"

type_synonym kwargs = "(string \<times> kwval) list"

datatype event = Print string | Run string kwargs | Sleep nat

record run_result =
  exited :: int
  stdout :: string

text \<open>
  The outside world: what an external command answers (exit status and standard output),
  which may depend on everything that happened before, and the two file system questions
  \<^verbatim>\<open>destroy\<close> asks through \<^verbatim>\<open>pathlib\<close>.
\<close>

record host =
  respond :: "event list \<Rightarrow> string \<Rightarrow> kwargs \<Rightarrow> run_result"
  is_file :: "string \<Rightarrow> bool"
  absolute :: "string \<Rightarrow> string"

text \<open>
  A task takes the trace so far and gives back its result, or the exception it raised,
  and the trace extended by what it did.
\<close>

type_synonym 'a task = "event list \<Rightarrow> (error + 'a) \<times> event list"

definition ret :: "'a \<Rightarrow> 'a task" where
  "ret x tr = (Inr x, tr)"

definition raise :: "error \<Rightarrow> 'a task" where
  "raise e tr = (Inl e, tr)"

definition bind :: "'a task \<Rightarrow> ('a \<Rightarrow> 'b task) \<Rightarrow> 'b task" where
  "bind m f tr = (case m tr of (Inl e, tr') \<Rightarrow> (Inl e, tr') | (Inr x, tr') \<Rightarrow> f x tr')"

definition py_print :: "string \<Rightarrow> unit task" where
  "py_print s tr = (Inr (), tr @ [Print s])"

text \<open>
  Invoke's \<^verbatim>\<open>context.run(command, **kwargs)\<close>: the command is started, and a non-zero exit
  status raises \<^verbatim>\<open>UnexpectedExit\<close> (no task of the file passes \<^verbatim>\<open>warn=True\<close>).
\<close>

definition context_run :: "host \<Rightarrow> string \<Rightarrow> kwargs \<Rightarrow> run_result task" where
  "context_run h command kwargs tr =
     (let result = respond h tr command kwargs in
      if exited result = 0 then (Inr result, tr @ [Run command kwargs])
      else (Inl (UnexpectedExit command), tr @ [Run command kwargs]))"

text \<open>
  A task that may wait for ever gives \<open>None\<close> when it does not return.
\<close>

type_synonym 'a ptask = "event list \<Rightarrow> ((error + 'a) \<times> event list) option"

definition lift :: "'a task \<Rightarrow> 'a ptask" where
  "lift m tr = Some (m tr)"

definition pbind :: "'a ptask \<Rightarrow> ('a \<Rightarrow> 'b ptask) \<Rightarrow> 'b ptask" where
  "pbind m f tr =
     (case m tr of
        None \<Rightarrow> None
      | Some (Inl e, tr') \<Rightarrow> Some (Inl e, tr')
      | Some (Inr x, tr') \<Rightarrow> f x tr')"

section \<open>The helpers of the task runner\<close>

text \<open>
  \<^verbatim>\<open>
  def _is_compose_included(context, name):
      return f"docker-compose.{name}.yml" in context.nautobot_ssot.compose_files
  \<close>
\<close>

definition is_compose_included :: "nautobot_ssot \<Rightarrow> string \<Rightarrow> bool" where
  "is_compose_included ctx name \<longleftrightarrow>
     ''docker-compose.'' @ name @ ''.yml'' \<in> set (compose_files ctx)"

text \<open>
  \<^verbatim>\<open>docker_compose(context, command, **kwargs)\<close>. Its locals \<^verbatim>\<open>build_env\<close> and
  \<^verbatim>\<open>compose_command\<close> are definitions of their own; \<open>extra\<close> is \<^verbatim>\<open>kwargs.pop("env", {})\<close>
  and \<open>service\<close> is \<^verbatim>\<open>kwargs.pop("service", None)\<close>. A dictionary display keeps the place of a
  key that is set again, as \<open>AList.update\<close> does.
\<close>

definition build_env :: "nautobot_ssot \<Rightarrow> (string \<times> string) list \<Rightarrow> (string \<times> string) list" where
  "build_env ctx extra =
     fold (\<lambda>(k, v). AList.update k v) extra
       [(''COMPOSE_HTTP_TIMEOUT'', compose_http_timeout ctx),
        (''NAUTOBOT_VER'', nautobot_ver ctx),
        (''PYTHON_VER'', python_ver ctx)]"

definition compose_command :: "nautobot_ssot \<Rightarrow> string \<Rightarrow> string option \<Rightarrow> string" where
  \<open>compose_command ctx command service =
     str_join '' ''
       ([''docker compose'',
         ''--project-name '' @ project_name ctx,
         ''--project-directory "'' @ compose_dir ctx @ ''"'']
        @ map (\<lambda>compose_file. '' -f "'' @ os_path_join (compose_dir ctx) compose_file @ ''"'')
            (compose_files ctx)
        @ [command]
        @ (case service of None \<Rightarrow> [] | Some s \<Rightarrow> [s]))\<close>

definition docker_compose :: "host \<Rightarrow> nautobot_ssot \<Rightarrow> string \<Rightarrow> kwargs \<Rightarrow> run_result task" where
  \<open>docker_compose h ctx command kwargs =
     (case map_of kwargs ''env'' of
        Some (KwBool b) \<Rightarrow> raise TypeError
      | Some (KwStr s) \<Rightarrow> raise TypeError
      | env \<Rightarrow>
          (let extra = (case env of Some (KwDict d) \<Rightarrow> d | _ \<Rightarrow> []);
               kwargs1 = AList.delete ''env'' kwargs;
               service = map_of kwargs1 ''service'';
               kwargs2 = AList.delete ''service'' kwargs1
           in bind (py_print (''Running docker compose command "'' @ command @ ''"''))
                (\<lambda>_. case service of
                        None \<Rightarrow>
                          context_run h (compose_command ctx command None)
                            ((''env'', KwDict (build_env ctx extra)) # kwargs2)
                      | Some (KwStr s) \<Rightarrow>
                          context_run h (compose_command ctx command (Some s))
                            ((''env'', KwDict (build_env ctx extra)) # kwargs2)
                      | Some _ \<Rightarrow> raise TypeError)))\<close>

text \<open>
  \<^verbatim>\<open>
  def run_command(context, command, **kwargs):
      if is_truthy(context.nautobot_ssot.local):
          context.run(command, **kwargs)
      else:
          docker_compose_status = "ps --services --filter status=running"
          results = docker_compose(context, docker_compose_status, hide="out")
          if "nautobot" in results.stdout:
              compose_command = f"exec nautobot {command}"
          else:
              compose_command = f"run --rm --entrypoint '{command}' nautobot"
          pty = kwargs.pop("pty", True)
          docker_compose(context, compose_command, pty=pty, **kwargs)
  \<close>
\<close>

definition run_command :: "host \<Rightarrow> nautobot_ssot \<Rightarrow> string \<Rightarrow> kwargs \<Rightarrow> unit task" where
  "run_command h ctx command kwargs =
     (case is_truthy (local ctx) of
        Inl e \<Rightarrow> raise e
      | Inr True \<Rightarrow> bind (context_run h command kwargs) (\<lambda>_. ret ())
      | Inr False \<Rightarrow>
          bind (docker_compose h ctx ''ps --services --filter status=running''
                  [(''hide'', KwStr ''out'')])
            (\<lambda>results.
               let compose_command =
                     (if str_contains ''nautobot'' (stdout results)
                      then ''exec nautobot '' @ command
                      else ''run --rm --entrypoint '' @ apos @ command @ apos @ '' nautobot'');
                   pty = (case map_of kwargs ''pty'' of Some v \<Rightarrow> v | None \<Rightarrow> KwBool True)
               in bind (docker_compose h ctx compose_command
                          ((''pty'', pty) # AList.delete ''pty'' kwargs))
                    (\<lambda>_. ret ())))"

text \<open>
  \<^verbatim>\<open>
  def _await_healthy_container(context, container_id):
      while True:
          result = context.run(
              "docker inspect --format='{{.State.Health.Status}}' " + container_id,
              pty=False, echo=False, hide=True)
          if result.stdout.strip() == "healthy":
              break
          print(f"Waiting for `{container_id}` container to become healthy ...")
          sleep(1)
  \<close>
  The loop ends only when the container reports healthy (or the command fails).
\<close>

partial_function (option) await_healthy_container ::
  "host \<Rightarrow> string \<Rightarrow> event list \<Rightarrow> ((error + unit) \<times> event list) option" where
  [code]: "await_healthy_container h container_id tr =
     (case context_run h
             (''docker inspect --format='' @ apos @ ''{{.State.Health.Status}}'' @ apos @ '' ''
                @ container_id)
             [(''pty'', KwBool False), (''echo'', KwBool False), (''hide'', KwBool True)] tr of
        (Inl e, tr') \<Rightarrow> Some (Inl e, tr')
      | (Inr result, tr') \<Rightarrow>
          if str_strip (stdout result) = ''healthy'' then Some (Inr (), tr')
          else await_healthy_container h container_id
                 (tr' @ [Print (''Waiting for `'' @ container_id
                                  @ ''` container to become healthy ...''),
                         Sleep 1]))"

text \<open>
  \<^verbatim>\<open>
  def _await_healthy_service(context, service):
      container_id = docker_compose(context, f"ps -q -- {service}",
                                    pty=False, echo=False, hide=True).stdout.strip()
      _await_healthy_container(context, container_id)
  \<close>
\<close>

definition await_healthy_service :: "host \<Rightarrow> nautobot_ssot \<Rightarrow> string \<Rightarrow> unit ptask" where
  "await_healthy_service h ctx service =
     pbind (lift (docker_compose h ctx (''ps -q -- '' @ service)
                    [(''pty'', KwBool False), (''echo'', KwBool False), (''hide'', KwBool True)]))
       (\<lambda>result. await_healthy_container h (str_strip (stdout result)))"


section \<open>The tasks\<close>

text \<open>
  \<^verbatim>\<open>
  def start(context, service=""):
      print("Starting Nautobot in detached mode...")
      docker_compose(context, "up --detach", service=service)
  \<close>
\<close>

definition start :: "host \<Rightarrow> nautobot_ssot \<Rightarrow> string \<Rightarrow> unit task" where
  "start h ctx service =
     bind (py_print ''Starting Nautobot in detached mode...'')
       (\<lambda>_. bind (docker_compose h ctx ''up --detach'' [(''service'', KwStr service)])
               (\<lambda>_. ret ()))"

text \<open>
  \<^verbatim>\<open>destroy(context, volumes=True, import_db_file="")\<close>: the containers are taken down
  first; the import of a database file, with its two checks, comes after.
\<close>

definition destroy :: "host \<Rightarrow> nautobot_ssot \<Rightarrow> bool \<Rightarrow> string \<Rightarrow> unit ptask" where
  "destroy h ctx volumes import_db_file =
     pbind (lift (bind (py_print ''Destroying Nautobot...'')
                    (\<lambda>_. docker_compose h ctx
                            (''down --remove-orphans '' @ (if volumes then ''--volumes'' else []))
                            [])))
       (\<lambda>_. if import_db_file = [] then lift (ret ())
             else if \<not> volumes then
               lift (raise (ValueError
                 ''Cannot specify `--no-volumes` and `--import-db-file` arguments at the same time.''))
             else
               pbind (lift (py_print (''Importing database file: '' @ import_db_file @ ''...'')))
                 (\<lambda>_. let input_path = absolute h import_db_file in
                       if \<not> is_file h input_path then
                         lift (raise (ValueError (''File not found: '' @ input_path)))
                       else
                         let command =
                               [''run'', ''--rm'', ''--detach'',
                                ''--volume='' @ apos @ input_path
                                  @ '':/docker-entrypoint-initdb.d/dump.sql'' @ apos,
                                ''--'', ''db'']
                         in pbind (lift (docker_compose h ctx (str_join '' '' command)
                                           [(''pty'', KwBool False), (''echo'', KwBool False),
                                            (''hide'', KwBool True)]))
                              (\<lambda>result.
                                 let container_id = str_strip (stdout result) in
                                 pbind (await_healthy_container h container_id)
                                   (\<lambda>_. lift
                                      (bind (py_print ''Stopping database container...'')
                                         (\<lambda>_. bind (context_run h (''docker stop '' @ container_id)
                                                       [(''pty'', KwBool False),
                                                        (''echo'', KwBool False),
                                                        (''hide'', KwBool True)])
                                           (\<lambda>_. bind (py_print
  ''Database import complete, you can start Nautobot with the following command:'')
                                             (\<lambda>_. py_print ''invoke start''))))))))"

text \<open>
  \<^verbatim>\<open>dbshell(context, db_name="", input_file="", output_file="", query="")\<close>: the two
  argument checks, then the command in the dialect of the database backend. The empty
  string is written \<open>[]\<close>.
\<close>

definition dbshell ::
  "host \<Rightarrow> nautobot_ssot \<Rightarrow> string \<Rightarrow> string \<Rightarrow> string \<Rightarrow> string \<Rightarrow> unit task" where
  \<open>dbshell h ctx db_name input_file output_file query =
     (if input_file \<noteq> [] \<and> query \<noteq> [] then
        raise (ValueError ''Cannot specify both, `input_file` and `query` arguments'')
      else if output_file \<noteq> [] \<and> \<not> (input_file \<noteq> [] \<or> query \<noteq> []) then
        raise (ValueError ''`output_file` argument requires `input_file` or `query` argument'')
      else
        let env = (if query \<noteq> [] then [(''_SQL_QUERY'', query)] else []);
            command =
              [''exec'',
               if query \<noteq> [] then ''--env=_SQL_QUERY'' else [],
               ''-- db sh -c '' @ apos];
            rest =
              [apos,
               if query \<noteq> [] then ''<<<"$_SQL_QUERY"'' else [],
               if input_file \<noteq> [] then ''< '' @ apos @ input_file @ apos else [],
               if output_file \<noteq> [] then ''> '' @ apos @ output_file @ apos else []];
            kwargs =
              [(''env'', KwDict env),
               (''pty'', KwBool (\<not> (input_file \<noteq> [] \<or> output_file \<noteq> [] \<or> query \<noteq> [])))]
        in
        if is_compose_included ctx ''mysql'' then
          bind (docker_compose h ctx
                  (str_join '' ''
                     (command
                      @ [''mysql'',
                         ''--user=$MYSQL_USER'',
                         ''--password=$MYSQL_PASSWORD'',
                         ''--database='' @ (if db_name \<noteq> [] then db_name else ''$MYSQL_DATABASE'')]
                      @ rest))
                  kwargs)
            (\<lambda>_. ret ())
        else if is_compose_included ctx ''postgres'' then
          bind (docker_compose h ctx
                  (str_join '' ''
                     (command
                      @ [''psql'',
                         ''--username=$POSTGRES_USER'',
                         ''--dbname='' @ (if db_name \<noteq> [] then db_name else ''$POSTGRES_DB'')]
                      @ rest))
                  kwargs)
            (\<lambda>_. ret ())
        else raise (ValueError ''Unsupported database backend.''))\<close>

text \<open>
  \<^verbatim>\<open>import_db(context, db_name="", input_file="dump.sql")\<close>. Its first three statements
  stop Nautobot, start the database service and wait for it:
  \<^verbatim>\<open>
      docker_compose(context, "stop -- nautobot worker beat")
      start(context, "db")
      _await_healthy_service(context, "db")
  \<close>
  They are named \<open>import_db_preparation\<close>; the command is assembled after them.
\<close>

definition import_db_preparation :: "host \<Rightarrow> nautobot_ssot \<Rightarrow> unit ptask" where
  "import_db_preparation h ctx =
     pbind (lift (docker_compose h ctx ''stop -- nautobot worker beat'' []))
       (\<lambda>_. pbind (lift (start h ctx ''db''))
         (\<lambda>_. await_healthy_service h ctx ''db''))"

definition import_db :: "host \<Rightarrow> nautobot_ssot \<Rightarrow> string \<Rightarrow> string \<Rightarrow> unit ptask" where
  \<open>import_db h ctx db_name input_file =
     pbind (import_db_preparation h ctx)
           (\<lambda>_. let command = [''exec -- db sh -c '' @ apos];
                     rest = [apos, ''< '' @ apos @ input_file @ apos];
                     finish = (\<lambda>command.
                       lift (bind (docker_compose h ctx (str_join '' '' command)
                                     [(''pty'', KwBool False)])
                               (\<lambda>_. py_print
  ''Database import complete, you can start Nautobot now: `invoke start`'')))
                 in
                 if is_compose_included ctx ''mysql'' then
                   let db_name = (if db_name = [] then ''$MYSQL_DATABASE'' else db_name) in
                   finish
                     (command
                      @ [''mysql --user root --password=$MYSQL_ROOT_PASSWORD'',
                         ''--execute="'',
                         ''DROP DATABASE IF EXISTS '' @ db_name @ '';'',
                         ''CREATE DATABASE '' @ db_name @ '';'',
                         if db_name = ''$MYSQL_DATABASE'' then []
                         else ''GRANT ALL PRIVILEGES ON '' @ db_name
                                @ ''.* TO $MYSQL_USER; FLUSH PRIVILEGES;'',
                         ''"'',
                         ''&&'',
                         ''mysql'',
                         ''--database='' @ db_name,
                         ''--user=$MYSQL_USER'',
                         ''--password=$MYSQL_PASSWORD'']
                      @ rest)
                 else if is_compose_included ctx ''postgres'' then
                   let db_name = (if db_name = [] then ''$POSTGRES_DB'' else db_name) in
                   finish
                     (command
                      @ [''dropdb --if-exists --user=$POSTGRES_USER '' @ db_name @ '' &&'',
                         ''createdb --user=$POSTGRES_USER '' @ db_name @ '' &&'',
                         ''psql --user=$POSTGRES_USER --dbname='' @ db_name]
                      @ rest)
                 else lift (raise (ValueError ''Unsupported database backend.'')))\<close>

text \<open>
  \<^verbatim>\<open>backup_db(context, db_name="", output_file="dump.sql", readable=True)\<close>. Its first two
  statements start the database service and wait for it:
  \<^verbatim>\<open>
      start(context, "db")
      _await_healthy_service(context, "db")
  \<close>
  They are named \<open>backup_db_preparation\<close>.
\<close>

definition backup_db_preparation :: "host \<Rightarrow> nautobot_ssot \<Rightarrow> unit ptask" where
  "backup_db_preparation h ctx =
     pbind (lift (start h ctx ''db'')) (\<lambda>_. await_healthy_service h ctx ''db'')"

definition backup_db ::
  "host \<Rightarrow> nautobot_ssot \<Rightarrow> string \<Rightarrow> string \<Rightarrow> bool \<Rightarrow> unit ptask" where
  \<open>backup_db h ctx db_name output_file readable =
     pbind (backup_db_preparation h ctx)
         (\<lambda>_. let command = [''exec -- db sh -c '' @ apos];
                   rest = [apos, ''> '' @ apos @ output_file @ apos];
                   finish = (\<lambda>command.
                     lift (bind (docker_compose h ctx (str_join '' '' command)
                                   [(''pty'', KwBool False)])
                       (\<lambda>_. bind (py_print (replicate 50 CHR ''=''))
                         (\<lambda>_. bind (py_print
  ''The database backup has been successfully completed and saved to the following file:'')
                           (\<lambda>_. bind (py_print output_file)
                             (\<lambda>_. bind (py_print
  ''You can import this database backup with the following command:'')
                               (\<lambda>_. bind (py_print (''invoke import-db --input-file '' @ apos
                                                       @ output_file @ apos))
                                 (\<lambda>_. py_print (replicate 50 CHR ''='')))))))))
               in
               if is_compose_included ctx ''mysql'' then
                 finish
                   (command
                    @ [''mysqldump'',
                       ''--user=root'',
                       ''--password=$MYSQL_ROOT_PASSWORD'',
                       if readable then ''--skip-extended-insert'' else [],
                       if db_name \<noteq> [] then db_name else ''$MYSQL_DATABASE'']
                    @ rest)
               else if is_compose_included ctx ''postgres'' then
                 finish
                   (command
                    @ [''pg_dump'',
                       ''--username=$POSTGRES_USER'',
                       ''--dbname='' @ (if db_name \<noteq> [] then db_name else ''$POSTGRES_DB''),
                       if readable then ''--inserts'' else []]
                    @ rest)
               else lift (raise (ValueError ''Unsupported database backend.'')))\<close>

text \<open>
  \<^verbatim>\<open>
  def docs(context):
      command = "mkdocs serve -v"
      if is_truthy(context.nautobot_ssot.local):
          print(">>> Serving Documentation at http://localhost:8001")
          run_command(context, command)
      else:
          start(context, service="docs")
  \<close>
\<close>

definition docs :: "host \<Rightarrow> nautobot_ssot \<Rightarrow> unit task" where
  "docs h ctx =
     (case is_truthy (local ctx) of
        Inl e \<Rightarrow> raise e
      | Inr True \<Rightarrow>
          bind (py_print ''>>> Serving Documentation at http://localhost:8001'')
            (\<lambda>_. run_command h ctx ''mkdocs serve -v'' [])
      | Inr False \<Rightarrow> start h ctx ''docs'')"

section \<open>The schema migration 0003\<close>

text \<open>
  \<^verbatim>\<open>
  class Migration(migrations.Migration):
      dependencies = [("nautobot_ssot", "0002_performance_metrics")]
      operations = [
          migrations.AlterField(model_name="synclogentry", name="message",
                                field=models.TextField(blank=True)),
          migrations.AlterField(model_name="synclogentry", name="object_repr",
                                field=models.TextField(blank=True, default="", editable=False)),
      ]
  \<close>
  The migration is data; what a field definition means and what applying an operation does
  is the host platform's (Django's), which is not part of the repository.
\<close>

text \<open>
  Modelled from the spec: the field classes of the host platform are missing. A column is
  a length-limited \<^verbatim>\<open>CharField\<close> (the presumed prior definition, with its \<^verbatim>\<open>max_length\<close>) or a
  free-text \<^verbatim>\<open>TextField\<close> of unrestricted length. A field definition records the options
  the migration names, \<^verbatim>\<open>blank\<close>, \<^verbatim>\<open>default\<close> (\<open>None\<close> when none is declared) and
  \<^verbatim>\<open>editable\<close>, together with \<^verbatim>\<open>null\<close>.
\<close>

datatype column = CharField nat | TextField

record field =
  column :: column
  blank :: bool
  nullable :: bool
  declared_default :: "string option"
  editable :: bool

text \<open>
  Modelled from the spec: the constructor \<^verbatim>\<open>models.TextField(**options)\<close> of the host
  platform is missing; an option that is not given keeps the platform's default
  (\<^verbatim>\<open>blank=False\<close>, \<^verbatim>\<open>null=False\<close>, no default, \<^verbatim>\<open>editable=True\<close>).
\<close>

definition models_TextField :: field where
  "models_TextField =
     \<lparr>column = TextField, blank = False, nullable = False, declared_default = None,
      editable = True\<rparr>"

text \<open>
  Modelled from the spec: the platform's \<^verbatim>\<open>Field.get_default()\<close> is missing. The value a
  new row gets when none is supplied is the declared default; a text or character field
  that declares none defaults to the empty string unless it is nullable (then to \<^verbatim>\<open>None\<close>).
\<close>

definition get_default :: "field \<Rightarrow> string option" where
  "get_default f =
     (case declared_default f of
        Some d \<Rightarrow> Some d
      | None \<Rightarrow> if nullable f then None else Some [])"

datatype operation = AlterField string string field

definition dependencies :: "(string \<times> string) list" where
  "dependencies = [(''nautobot_ssot'', ''0002_performance_metrics'')]"

definition operations :: "operation list" where
  "operations =
     [AlterField ''synclogentry'' ''message'' (models_TextField\<lparr>blank := True\<rparr>),
      AlterField ''synclogentry'' ''object_repr''
        (models_TextField\<lparr>blank := True, declared_default := Some [], editable := False\<rparr>)]"

text \<open>
  Modelled from the spec: the migration runner of the host platform is missing. The schema
  of the app maps a model name to its fields by name. \<^verbatim>\<open>AlterField\<close> replaces the definition
  of a field the model has; a model or a field that does not exist is an error. The
  operations of a migration are applied in order, stopping at the first error.
\<close>

type_synonym schema = "string \<rightharpoonup> (string \<rightharpoonup> field)"

datatype schema_error = LookupError string | FieldDoesNotExist string string

fun apply_operation :: "operation \<Rightarrow> schema \<Rightarrow> schema_error + schema" where
  "apply_operation (AlterField model_name field_name fld) s =
     (case s model_name of
        None \<Rightarrow> Inl (LookupError model_name)
      | Some model_fields \<Rightarrow>
          (case model_fields field_name of
             None \<Rightarrow> Inl (FieldDoesNotExist model_name field_name)
           | Some old \<Rightarrow> Inr (s(model_name \<mapsto> model_fields(field_name \<mapsto> fld)))))"

fun apply_operations :: "operation list \<Rightarrow> schema \<Rightarrow> schema_error + schema" where
  "apply_operations [] s = Inr s"
| "apply_operations (op # ops) s =
     (case apply_operation op s of
        Inl e \<Rightarrow> Inl e
      | Inr s' \<Rightarrow> apply_operations ops s')"

text \<open>
  A schema as migration 0002 may have left it: the two columns as length-limited
  character fields.
\<close>

definition schema_0002 :: schema where
  "schema_0002 =
     [''synclogentry'' \<mapsto>
        [''message'' \<mapsto>
           \<lparr>column = CharField 511, blank = True, nullable = False,
            declared_default = None, editable = True\<rparr>,
         ''object_repr'' \<mapsto>
           \<lparr>column = CharField 200, blank = True, nullable = False,
            declared_default = Some [], editable = False\<rparr>]]"

text \<open>The same schema with the two target definitions of migration 0003.\<close>

definition schema_0003 :: schema where
  "schema_0003 =
     [''synclogentry'' \<mapsto>
        [''message'' \<mapsto> models_TextField\<lparr>blank := True\<rparr>,
         ''object_repr'' \<mapsto>
           models_TextField\<lparr>blank := True, declared_default := Some [], editable := False\<rparr>]]"

section \<open>The app configuration\<close>

text \<open>
  \<^verbatim>\<open>
  class NautobotSSOTAppConfig(NautobotAppConfig):
      name = "nautobot_ssot"
      ...
      def ready(self):
          """Trigger callback when database is ready."""
          super().ready()
  \<close>
  The base class \<^verbatim>\<open>NautobotAppConfig\<close> belongs to the host platform, so its \<^verbatim>\<open>ready\<close> is a
  parameter: from the object it gives the exception it raised or the value it returned,
  and the object as it left it. \<^verbatim>\<open>ready\<close> itself returns \<^verbatim>\<open>None\<close>.
\<close>

definition ready :: "('self \<Rightarrow> ('e + 'r) \<times> 'self) \<Rightarrow> 'self \<Rightarrow> ('e + unit) \<times> 'self" where
  "ready super_ready self =
     (case super_ready self of
        (Inl e, self') \<Rightarrow> (Inl e, self')
      | (Inr r, self') \<Rightarrow> (Inr (), self'))"

text \<open>
  The class attributes of the app configuration. \<open>version\<close> is
  \<^verbatim>\<open>metadata.version(__name__)\<close>, a parameter here.
\<close>

datatype setting = SStr string | SBool bool | SInt int | SList "string list"
  | SDict "(string \<times> string) list"

record app_config =
  name :: string
  verbose_name :: string
  version :: string
  author :: string
  description :: string
  base_url :: string
  required_settings :: "string list"
  min_version :: string
  max_version :: string
  default_settings :: "(string \<times> setting) list"
  caching_config :: "(string \<times> string) list"

definition NautobotSSOTAppConfig :: "string \<Rightarrow> app_config" where
  "NautobotSSOTAppConfig metadata_version =
     \<lparr>name = ''nautobot_ssot'',
      verbose_name = ''Single Source of Truth'',
      version = metadata_version,
      author = ''Network to Code, LLC'',
      description =
          ''Nautobot app that enables Single Source of Truth.  Allows users ''
          @ ''to aggregate distributed data sources and/or distribute Nautobot ''
          @ ''data to other data sources such as databases and SDN controllers.'',
      base_url = ''ssot'',
      required_settings = [],
      min_version = ''2.0.0'',
      max_version = ''2.9999'',
      default_settings =
        [(''aci_apics'', SList []),
         (''aci_tag'', SStr []),
         (''aci_tag_color'', SStr []),
         (''aci_tag_up'', SStr []),
         (''aci_tag_up_color'', SStr []),
         (''aci_tag_down'', SStr []),
         (''aci_tag_down_color'', SStr []),
         (''aci_manufacturer_name'', SStr []),
         (''aci_ignore_tenants'', SList []),
         (''aci_comments'', SStr []),
         (''aci_site'', SStr []),
         (''aristacv_apply_import_tag'', SBool False),
         (''aristacv_controller_site'', SStr []),
         (''aristacv_create_controller'', SBool False),
         (''aristacv_cvaas_url'', SStr ''www.arista.io:443''),
         (''aristacv_cvp_host'', SStr []),
         (''aristacv_cvp_password'', SStr []),
         (''aristacv_cvp_port'', SStr ''443''),
         (''aristacv_cvp_token'', SStr []),
         (''aristacv_cvp_user'', SStr []),
         (''aristacv_delete_devices_on_sync'', SBool False),
         (''aristacv_from_cloudvision_default_device_role'', SStr []),
         (''aristacv_from_cloudvision_default_device_role_color'', SStr []),
         (''aristacv_from_cloudvision_default_site'', SStr []),
         (''aristacv_hostname_patterns'', SList []),
         (''aristacv_import_active'', SBool False),
         (''aristacv_role_mappings'', SDict []),
         (''aristacv_site_mappings'', SDict []),
         (''aristacv_verify'', SBool True),
         (''device42_host'', SStr []),
         (''device42_username'', SStr []),
         (''device42_password'', SStr []),
         (''device42_defaults'', SDict []),
         (''device42_delete_on_sync'', SBool False),
         (''device42_use_dns'', SBool True),
         (''device42_customer_is_facility'', SBool True),
         (''device42_facility_prepend'', SStr []),
         (''device42_role_prepend'', SStr []),
         (''device42_ignore_tag'', SStr []),
         (''device42_hostname_mapping'', SList []),
         (''enable_aci'', SBool False),
         (''enable_aristacv'', SBool False),
         (''enable_device42'', SBool False),
         (''enable_infoblox'', SBool False),
         (''enable_ipfabric'', SBool False),
         (''enable_servicenow'', SBool False),
         (''hide_example_jobs'', SBool True),
         (''infoblox_default_status'', SStr []),
         (''infoblox_enable_rfc1918_network_containers'', SBool False),
         (''infoblox_enable_sync_to_infoblox'', SBool False),
         (''infoblox_import_objects_ip_addresses'', SBool False),
         (''infoblox_import_objects_subnets'', SBool False),
         (''infoblox_import_objects_vlan_views'', SBool False),
         (''infoblox_import_objects_vlans'', SBool False),
         (''infoblox_import_subnets'', SList []),
         (''infoblox_password'', SStr []),
         (''infoblox_url'', SStr []),
         (''infoblox_username'', SStr []),
         (''infoblox_verify_ssl'', SBool True),
         (''infoblox_wapi_version'', SStr []),
         (''ipfabric_api_token'', SStr []),
         (''ipfabric_host'', SStr []),
         (''ipfabric_ssl_verify'', SBool True),
         (''ipfabric_timeout'', SInt 15),
         (''ipfabric_nautobot_host'', SStr []),
         (''servicenow_instance'', SStr []),
         (''servicenow_password'', SStr []),
         (''servicenow_username'', SStr [])],
      caching_config = []\<rparr>"

section \<open>Observations and example inputs\<close>

text \<open>The external commands a trace holds, in the order they were started.\<close>

fun commands_run :: "event list \<Rightarrow> string list" where
  "commands_run [] = []"
| "commands_run (Run command kwargs # tr) = command # commands_run tr"
| "commands_run (e # tr) = commands_run tr"

text \<open>
  A host on which every command succeeds: \<^verbatim>\<open>docker inspect\<close> answers \<^verbatim>\<open>healthy\<close> and every
  other command answers a container id, each followed by a newline. \<open>failing_host\<close> is a
  host on which every command exits with status 1.
\<close>

definition example_host :: host where
  "example_host =
     \<lparr>respond = (\<lambda>tr command kwargs.
        \<lparr>exited = 0,
         stdout = (if take 14 command = ''docker inspect'' then ''healthy'' @ [CHR 0x0A]
                   else ''4f2a9c'' @ [CHR 0x0A])\<rparr>),
      is_file = (\<lambda>path. True),
      absolute = (\<lambda>path. ''/repo/'' @ path)\<rparr>"

definition failing_host :: host where
  "failing_host =
     \<lparr>respond = (\<lambda>tr command kwargs. \<lparr>exited = 1, stdout = []\<rparr>),
      is_file = (\<lambda>path. True),
      absolute = (\<lambda>path. ''/repo/'' @ path)\<rparr>"

text \<open>
  Configurations: the default one (PostgreSQL), one with the MySQL file instead, one with
  both database files, and one with neither.
\<close>

definition postgres_config :: nautobot_ssot where
  "postgres_config = default_config ''/repo''"

definition mysql_config :: nautobot_ssot where
  "mysql_config =
     (default_config ''/repo'')
       \<lparr>compose_files := [''docker-compose.base.yml'', ''docker-compose.mysql.yml'']\<rparr>"

definition both_config :: nautobot_ssot where
  "both_config =
     (default_config ''/repo'')
       \<lparr>compose_files :=
          [''docker-compose.base.yml'', ''docker-compose.postgres.yml'',
           ''docker-compose.mysql.yml'']\<rparr>"

definition no_db_config :: nautobot_ssot where
  "no_db_config =
     (default_config ''/repo'')
       \<lparr>compose_files := [''docker-compose.base.yml'', ''docker-compose.redis.yml'']\<rparr>"

section \<open>Basic facts about tasks and traces\<close>

lemma commands_run_append: "commands_run (xs @ ys) = commands_run xs @ commands_run ys"
  by (induction xs rule: commands_run.induct) simp_all

lemma context_run_trace:
  "context_run h c kw tr = (r, tr') \<Longrightarrow> tr' = tr @ [Run c kw]"
  by (auto simp: context_run_def Let_def split: if_splits)

lemma context_run_error:
  "context_run h c kw tr = (Inl e, tr') \<Longrightarrow> e = UnexpectedExit c"
  by (auto simp: context_run_def Let_def split: if_splits)

lemma docker_compose_plain:
  assumes "map_of kw ''env'' = None" and "map_of kw ''service'' = None"
  shows \<open>docker_compose h ctx c kw tr =
           context_run h (compose_command ctx c None) ((''env'', KwDict (build_env ctx [])) # kw)
             (tr @ [Print (''Running docker compose command "'' @ c @ ''"'')])\<close>
proof -
  from assms have "AList.delete ''env'' kw = kw" and "AList.delete ''service'' kw = kw"
    by (simp_all add: map_of_eq_None_iff)
  with assms show ?thesis
    by (simp add: docker_compose_def Let_def bind_def py_print_def)
qed

lemma docker_compose_error:
  assumes "docker_compose h ctx c kw tr = (Inl e, tr')"
  shows "e = TypeError \<or> (\<exists>c'. e = UnexpectedExit c')"
  using assms
  by (auto simp: docker_compose_def Let_def bind_def py_print_def raise_def
           split: option.splits kwval.splits dest: context_run_error)

lemma docker_compose_ext:
  assumes "docker_compose h ctx c kw tr = (r, tr')"
  shows "\<exists>ext. tr' = tr @ ext"
  using assms
  by (auto simp: docker_compose_def Let_def bind_def py_print_def raise_def
           split: option.splits kwval.splits dest!: context_run_trace)

lemma start_error:
  "start h ctx service tr = (Inl e, tr') \<Longrightarrow> e = TypeError \<or> (\<exists>c. e = UnexpectedExit c)"
  by (auto simp: start_def bind_def py_print_def ret_def split: prod.splits sum.splits
           dest: docker_compose_error)

lemma start_ext:
  "start h ctx service tr = (r, tr') \<Longrightarrow> \<exists>ext. tr' = tr @ ext"
  by (auto simp: start_def bind_def py_print_def ret_def split: prod.splits sum.splits
           dest!: docker_compose_ext)

lemma start_first_command:
  assumes "start h ctx service tr = (r, tr')"
  shows "commands_run tr' = commands_run tr @ [compose_command ctx ''up --detach'' (Some service)]"
  using assms
  by (auto simp: start_def bind_def py_print_def ret_def docker_compose_def Let_def
         commands_run_append
       split: prod.splits sum.splits dest!: context_run_trace)

lemma await_healthy_container_sound:
  assumes "await_healthy_container h cid tr = Some res"
  shows "(\<exists>ext. snd res = tr @ ext) \<and> (\<forall>e. fst res = Inl e \<longrightarrow> (\<exists>c. e = UnexpectedExit c))"
proof (rule await_healthy_container.raw_induct
    [where P = "\<lambda>h cid tr res. (\<exists>ext. snd res = tr @ ext)
                   \<and> (\<forall>e. fst res = Inl e \<longrightarrow> (\<exists>c. e = UnexpectedExit c))", OF _ assms])
  fix await :: "host \<Rightarrow> string \<Rightarrow> event list \<Rightarrow> ((error + unit) \<times> event list) option"
    and h cid tr res
  assume IH: "\<And>h cid tr res. await h cid tr = Some res \<Longrightarrow>
     (\<exists>ext. snd res = tr @ ext) \<and> (\<forall>e. fst res = Inl e \<longrightarrow> (\<exists>c. e = UnexpectedExit c))"
  assume body: "(case context_run h
       (''docker inspect --format='' @ apos @ ''{{.State.Health.Status}}'' @ apos @ '' '' @ cid)
       [(''pty'', KwBool False), (''echo'', KwBool False), (''hide'', KwBool True)] tr of
        (Inl e, tr') \<Rightarrow> Some (Inl e, tr')
      | (Inr result, tr') \<Rightarrow>
          if str_strip (stdout result) = ''healthy'' then Some (Inr (), tr')
          else await h cid
                 (tr' @ [Print (''Waiting for `'' @ cid
                                  @ ''` container to become healthy ...''),
                         Sleep 1])) = Some res"
  obtain r tr1 where cr:
    "context_run h
       (''docker inspect --format='' @ apos @ ''{{.State.Health.Status}}'' @ apos @ '' '' @ cid)
       [(''pty'', KwBool False), (''echo'', KwBool False), (''hide'', KwBool True)] tr = (r, tr1)"
    by force
  then have tr1: "\<exists>ext. tr1 = tr @ ext"
    by (auto dest: context_run_trace)
  show "(\<exists>ext. snd res = tr @ ext) \<and> (\<forall>e. fst res = Inl e \<longrightarrow> (\<exists>c. e = UnexpectedExit c))"
  proof (cases r)
    case (Inl e)
    with body cr have "res = (Inl e, tr1)" by simp
    with tr1 cr Inl show ?thesis by (auto dest: context_run_error)
  next
    case (Inr result)
    show ?thesis
    proof (cases "str_strip (stdout result) = ''healthy''")
      case True
      with body cr Inr have "res = (Inr (), tr1)" by simp
      with tr1 show ?thesis by auto
    next
      case False
      with body cr Inr obtain tr2 where "await h cid tr2 = Some res" and "\<exists>ext. tr2 = tr1 @ ext"
        by simp
      with IH[of h cid tr2 res] tr1 show ?thesis by auto
    qed
  qed
qed

lemma await_healthy_container_ext:
  "await_healthy_container h cid tr = Some (r, tr') \<Longrightarrow> \<exists>ext. tr' = tr @ ext"
  by (drule await_healthy_container_sound) simp

lemma await_healthy_container_error:
  "await_healthy_container h cid tr = Some (Inl e, tr') \<Longrightarrow> \<exists>c. e = UnexpectedExit c"
  by (drule await_healthy_container_sound) simp

lemma await_healthy_service_error:
  "await_healthy_service h ctx service tr = Some (Inl e, tr')
     \<Longrightarrow> e = TypeError \<or> (\<exists>c. e = UnexpectedExit c)"
  by (auto simp: await_healthy_service_def pbind_def lift_def
           split: prod.splits sum.splits
           dest: docker_compose_error await_healthy_container_error)

lemma await_healthy_service_ext:
  "await_healthy_service h ctx service tr = Some (r, tr') \<Longrightarrow> \<exists>ext. tr' = tr @ ext"
  by (auto simp: await_healthy_service_def pbind_def lift_def
           split: prod.splits sum.splits
           dest!: docker_compose_ext await_healthy_container_ext)

text \<open>What the preparations of \<open>import_db\<close> and \<open>backup_db\<close> can raise and what they run first.\<close>

lemma import_db_preparation_error:
  "import_db_preparation h ctx tr = Some (Inl e, tr')
     \<Longrightarrow> e = TypeError \<or> (\<exists>c. e = UnexpectedExit c)"
  by (auto simp: import_db_preparation_def pbind_def lift_def
           split: prod.splits sum.splits
           dest: docker_compose_error start_error await_healthy_service_error)

lemma import_db_preparation_first_command:
  assumes "import_db_preparation h ctx tr = Some (r, tr')"
  shows "\<exists>rest. commands_run tr' =
           commands_run tr @ compose_command ctx ''stop -- nautobot worker beat'' None # rest"
proof -
  obtain r1 tr1 where dc: "docker_compose h ctx ''stop -- nautobot worker beat'' [] tr = (r1, tr1)"
    by force
  then have tr1: "commands_run tr1 =
      commands_run tr @ [compose_command ctx ''stop -- nautobot worker beat'' None]"
    by (auto simp: docker_compose_plain commands_run_append dest!: context_run_trace)
  show ?thesis
  proof (cases r1)
    case (Inl e)
    with assms dc have "tr' = tr1"
      by (simp add: import_db_preparation_def pbind_def lift_def)
    with tr1 show ?thesis by simp
  next
    case (Inr x)
    with assms dc obtain ext where "tr' = tr1 @ ext"
      by (auto simp: import_db_preparation_def pbind_def lift_def
               split: prod.splits sum.splits
               dest!: start_ext await_healthy_service_ext)
    with tr1 show ?thesis by (simp add: commands_run_append)
  qed
qed

lemma backup_db_preparation_error:
  "backup_db_preparation h ctx tr = Some (Inl e, tr')
     \<Longrightarrow> e = TypeError \<or> (\<exists>c. e = UnexpectedExit c)"
  by (auto simp: backup_db_preparation_def pbind_def lift_def
           split: prod.splits sum.splits
           dest: start_error await_healthy_service_error)

lemma backup_db_preparation_first_command:
  assumes "backup_db_preparation h ctx tr = Some (r, tr')"
  shows "\<exists>rest. commands_run tr' =
           commands_run tr @ compose_command ctx ''up --detach'' (Some ''db'') # rest"
proof -
  obtain r1 tr1 where st: "start h ctx ''db'' tr = (r1, tr1)"
    by force
  then have tr1: "commands_run tr1 =
      commands_run tr @ [compose_command ctx ''up --detach'' (Some ''db'')]"
    by (rule start_first_command)
  show ?thesis
  proof (cases r1)
    case (Inl e)
    with assms st have "tr' = tr1"
      by (simp add: backup_db_preparation_def pbind_def lift_def)
    with tr1 show ?thesis by simp
  next
    case (Inr x)
    with assms st obtain ext where "tr' = tr1 @ ext"
      by (auto simp: backup_db_preparation_def pbind_def lift_def
               dest!: await_healthy_service_ext)
    with tr1 show ?thesis by (simp add: commands_run_append)
  qed
qed

text \<open>The answers of the example hosts.\<close>

lemma example_host_sel:
  "respond example_host tr command kw =
     \<lparr>exited = 0,
      stdout = (if take 14 command = ''docker inspect'' then ''healthy'' @ [CHR 0x0A]
                else ''4f2a9c'' @ [CHR 0x0A])\<rparr>"
  "is_file example_host path = True"
  "absolute example_host path = ''/repo/'' @ path"
  by (simp_all add: example_host_def)

lemma failing_host_sel:
  "respond failing_host tr command kw = \<lparr>exited = 1, stdout = []\<rparr>"
  by (simp add: failing_host_def)

lemma example_host_healthy:
  "await_healthy_container example_host cid tr =
     Some (Inr (), tr @ [Run (''docker inspect --format='' @ apos @ ''{{.State.Health.Status}}''
                                @ apos @ '' '' @ cid)
                           [(''pty'', KwBool False), (''echo'', KwBool False),
                            (''hide'', KwBool True)]])"
  by (subst await_healthy_container.simps)
     (simp add: context_run_def example_host_sel str_strip_def is_space_def)

lemmas cfg_defs =
  example_host_sel failing_host_sel no_db_config_def postgres_config_def mysql_config_def
  both_config_def default_config_def

section \<open>The truthy-string parser\<close>

lemma is_truthy_PyStr:
  "is_truthy (PyStr s) =
     (if str_lower s \<in> set [''y'', ''yes'', ''t'', ''true'', ''on'', ''1''] then Inr True
      else if str_lower s \<in> set [''n'', ''no'', ''f'', ''false'', ''off'', ''0''] then Inr False
      else Inl (ValueError (''Invalid truthy value: `'' @ s @ ''`'')))"
  by (simp add: is_truthy_def Let_def)

text \<open>
  C1. On a string, \<open>is_truthy\<close> returns \<open>True\<close> exactly when the lowercased string is one
  of y, yes, t, true, on, 1; it returns \<open>False\<close> exactly when the lowercased string is one
  of n, no, f, false, off, 0; and it raises \<^verbatim>\<open>ValueError\<close> (naming the string as given)
  exactly for every other string.
\<close>

theorem is_truthy_string_exact:
  "(is_truthy (PyStr s) = Inr True
      \<longleftrightarrow> str_lower s \<in> {''y'', ''yes'', ''t'', ''true'', ''on'', ''1''})
   \<and> (is_truthy (PyStr s) = Inr False
      \<longleftrightarrow> str_lower s \<in> {''n'', ''no'', ''f'', ''false'', ''off'', ''0''})
   \<and> (is_truthy (PyStr s) = Inl (ValueError (''Invalid truthy value: `'' @ s @ ''`''))
      \<longleftrightarrow> str_lower s \<notin> {''y'', ''yes'', ''t'', ''true'', ''on'', ''1'',
                          ''n'', ''no'', ''f'', ''false'', ''off'', ''0''})"
  unfolding is_truthy_PyStr by auto

lemma string_of_nat_0: "string_of_nat 0 = ''0''"
  by (subst string_of_nat.simps) (simp add: digit_char_def)

lemma string_of_nat_1: "string_of_nat (Suc 0) = ''1''"
  by (subst string_of_nat.simps) (simp add: digit_char_def)

lemma is_truthy_coerce:
  assumes "\<And>b. arg \<noteq> PyBool b"
  shows "is_truthy arg = is_truthy (PyStr (py_str arg))"
proof (cases arg)
  case (PyBool x)
  with assms [of x] show ?thesis by simp
qed (simp_all add: is_truthy_def Let_def)

text \<open>
  C8. \<open>is_truthy\<close> is not restricted to strings. A \<^verbatim>\<open>bool\<close> is returned unchanged. Every
  other argument is first coerced with \<^verbatim>\<open>str()\<close> and then matched as that string is; so
  the integers 1 and 0 give \<open>True\<close> and \<open>False\<close> and do not raise.
\<close>

theorem is_truthy_bool_and_coercion:
  "is_truthy (PyBool b) = Inr b
   \<and> ((\<forall>b'. arg \<noteq> PyBool b') \<longrightarrow> is_truthy arg = is_truthy (PyStr (py_str arg)))
   \<and> is_truthy (PyInt 1) = Inr True
   \<and> is_truthy (PyInt 0) = Inr False"
proof (intro conjI impI)
  show "is_truthy (PyBool b) = Inr b"
    by (simp add: is_truthy_def)
  show "is_truthy arg = is_truthy (PyStr (py_str arg))" if "\<forall>b'. arg \<noteq> PyBool b'"
    using that by (intro is_truthy_coerce) simp
  show "is_truthy (PyInt 1) = Inr True"
    by (simp add: is_truthy_def string_of_nat_1 str_lower_def lower_char_def)
  show "is_truthy (PyInt 0) = Inr False"
    by (simp add: is_truthy_def string_of_nat_0 str_lower_def lower_char_def)
qed

theorem is_truthy_bool_and_coercion_witness:
  "is_truthy (PyBool False) = Inr False
   \<and> (\<forall>b'. PyObj ''Yes'' \<noteq> PyBool b')
   \<and> is_truthy (PyObj ''Yes'') = is_truthy (PyStr (py_str (PyObj ''Yes'')))
   \<and> is_truthy (PyObj ''Yes'') = Inr True
   \<and> is_truthy (PyInt 1) = Inr True
   \<and> is_truthy (PyInt 0) = Inr False"
proof -
  have "is_truthy (PyStr ''Yes'') = Inr True"
    by (simp add: is_truthy_PyStr str_lower_def lower_char_def)
  with is_truthy_bool_and_coercion [of False "PyObj ''Yes''"] show ?thesis
    by simp
qed

section \<open>The database shell\<close>

lemma dbshell_both_sources:
  "input_file \<noteq> [] \<Longrightarrow> query \<noteq> [] \<Longrightarrow>
   dbshell h ctx db_name input_file output_file query tr =
     (Inl (ValueError ''Cannot specify both, `input_file` and `query` arguments''), tr)"
  by (simp add: dbshell_def raise_def)

lemma dbshell_output_without_source:
  "output_file \<noteq> [] \<Longrightarrow> input_file = [] \<Longrightarrow> query = [] \<Longrightarrow>
   dbshell h ctx db_name input_file output_file query tr =
     (Inl (ValueError ''`output_file` argument requires `input_file` or `query` argument''), tr)"
  by (simp add: dbshell_def raise_def)

lemma dbshell_unsupported:
  "\<not> (input_file \<noteq> [] \<and> query \<noteq> []) \<Longrightarrow>
   \<not> (output_file \<noteq> [] \<and> input_file = [] \<and> query = []) \<Longrightarrow>
   \<not> is_compose_included ctx ''mysql'' \<Longrightarrow> \<not> is_compose_included ctx ''postgres'' \<Longrightarrow>
   dbshell h ctx db_name input_file output_file query tr =
     (Inl (ValueError ''Unsupported database backend.''), tr)"
  by (auto simp add: dbshell_def raise_def Let_def)

lemma dbshell_mysql:
  assumes "\<not> (input_file \<noteq> [] \<and> query \<noteq> [])"
    and "\<not> (output_file \<noteq> [] \<and> input_file = [] \<and> query = [])"
    and "is_compose_included ctx ''mysql''"
  shows \<open>dbshell h ctx db_name input_file output_file query =
     bind (docker_compose h ctx
             (str_join '' ''
                [''exec'',
                 if query \<noteq> [] then ''--env=_SQL_QUERY'' else [],
                 ''-- db sh -c '' @ apos,
                 ''mysql'',
                 ''--user=$MYSQL_USER'',
                 ''--password=$MYSQL_PASSWORD'',
                 ''--database='' @ (if db_name \<noteq> [] then db_name else ''$MYSQL_DATABASE''),
                 apos,
                 if query \<noteq> [] then ''<<<"$_SQL_QUERY"'' else [],
                 if input_file \<noteq> [] then ''< '' @ apos @ input_file @ apos else [],
                 if output_file \<noteq> [] then ''> '' @ apos @ output_file @ apos else []])
             [(''env'', KwDict (if query \<noteq> [] then [(''_SQL_QUERY'', query)] else [])),
              (''pty'', KwBool (input_file = [] \<and> output_file = [] \<and> query = []))])
       (\<lambda>_. ret ())\<close>
  using assms by (auto simp add: dbshell_def Let_def)

lemma dbshell_postgres:
  assumes "\<not> (input_file \<noteq> [] \<and> query \<noteq> [])"
    and "\<not> (output_file \<noteq> [] \<and> input_file = [] \<and> query = [])"
    and "\<not> is_compose_included ctx ''mysql''"
    and "is_compose_included ctx ''postgres''"
  shows \<open>dbshell h ctx db_name input_file output_file query =
     bind (docker_compose h ctx
             (str_join '' ''
                [''exec'',
                 if query \<noteq> [] then ''--env=_SQL_QUERY'' else [],
                 ''-- db sh -c '' @ apos,
                 ''psql'',
                 ''--username=$POSTGRES_USER'',
                 ''--dbname='' @ (if db_name \<noteq> [] then db_name else ''$POSTGRES_DB''),
                 apos,
                 if query \<noteq> [] then ''<<<"$_SQL_QUERY"'' else [],
                 if input_file \<noteq> [] then ''< '' @ apos @ input_file @ apos else [],
                 if output_file \<noteq> [] then ''> '' @ apos @ output_file @ apos else []])
             [(''env'', KwDict (if query \<noteq> [] then [(''_SQL_QUERY'', query)] else [])),
              (''pty'', KwBool (input_file = [] \<and> output_file = [] \<and> query = []))])
       (\<lambda>_. ret ())\<close>
  using assms by (auto simp add: dbshell_def Let_def)

lemma dbshell_mysql_command:
  assumes "\<not> (input_file \<noteq> [] \<and> query \<noteq> [])"
    and "\<not> (output_file \<noteq> [] \<and> input_file = [] \<and> query = [])"
    and "is_compose_included ctx ''mysql''"
  shows \<open>commands_run (snd (dbshell h ctx db_name input_file output_file query tr)) =
     commands_run tr @
     [compose_command ctx
        (str_join '' ''
           [''exec'',
            if query \<noteq> [] then ''--env=_SQL_QUERY'' else [],
            ''-- db sh -c '' @ apos,
            ''mysql'',
            ''--user=$MYSQL_USER'',
            ''--password=$MYSQL_PASSWORD'',
            ''--database='' @ (if db_name \<noteq> [] then db_name else ''$MYSQL_DATABASE''),
            apos,
            if query \<noteq> [] then ''<<<"$_SQL_QUERY"'' else [],
            if input_file \<noteq> [] then ''< '' @ apos @ input_file @ apos else [],
            if output_file \<noteq> [] then ''> '' @ apos @ output_file @ apos else []])
        None]\<close>
  unfolding dbshell_mysql [OF assms]
  by (simp add: Let_def bind_def docker_compose_def py_print_def context_run_def
        ret_def commands_run_append)

lemma dbshell_postgres_command:
  assumes "\<not> (input_file \<noteq> [] \<and> query \<noteq> [])"
    and "\<not> (output_file \<noteq> [] \<and> input_file = [] \<and> query = [])"
    and "\<not> is_compose_included ctx ''mysql''"
    and "is_compose_included ctx ''postgres''"
  shows \<open>commands_run (snd (dbshell h ctx db_name input_file output_file query tr)) =
     commands_run tr @
     [compose_command ctx
        (str_join '' ''
           [''exec'',
            if query \<noteq> [] then ''--env=_SQL_QUERY'' else [],
            ''-- db sh -c '' @ apos,
            ''psql'',
            ''--username=$POSTGRES_USER'',
            ''--dbname='' @ (if db_name \<noteq> [] then db_name else ''$POSTGRES_DB''),
            apos,
            if query \<noteq> [] then ''<<<"$_SQL_QUERY"'' else [],
            if input_file \<noteq> [] then ''< '' @ apos @ input_file @ apos else [],
            if output_file \<noteq> [] then ''> '' @ apos @ output_file @ apos else []])
        None]\<close>
  unfolding dbshell_postgres [OF assms]
  by (simp add: Let_def bind_def docker_compose_def py_print_def context_run_def
        ret_def commands_run_append)

text \<open>
  C9. \<open>dbshell\<close> raises \<^verbatim>\<open>ValueError\<close> whenever \<open>output_file\<close> is given while \<open>input_file\<close>
  and \<open>query\<close> are both empty, and nothing has happened by then: the trace is the one the
  call started with.
\<close>

theorem dbshell_output_file_requires_source:
  assumes "output_file \<noteq> []" and "input_file = []" and "query = []"
  shows "dbshell h ctx db_name input_file output_file query tr =
           (Inl (ValueError ''`output_file` argument requires `input_file` or `query` argument''),
            tr)"
  using assms by (simp add: dbshell_def raise_def)

theorem dbshell_output_file_requires_source_witness:
  "''out.txt'' \<noteq> []
   \<and> dbshell example_host postgres_config ''nautobot'' [] ''out.txt'' [] [] =
       (Inl (ValueError ''`output_file` argument requires `input_file` or `query` argument''), [])
   \<and> commands_run (snd (dbshell example_host postgres_config ''nautobot'' [] ''out.txt'' [] [])) = []"
  using dbshell_output_file_requires_source
          [of "''out.txt''" "[]" "[]" example_host postgres_config "''nautobot''" "[]"]
  by simp

section \<open>Database import and backup\<close>

text \<open>
  A task that runs one docker compose command (with no service) and then only prints
  starts exactly that command.
\<close>

lemma docker_compose_then_prints:
  assumes "map_of kw ''env'' = None" and "map_of kw ''service'' = None"
    and "\<And>x tr. \<exists>r ps. after x tr = (r, tr @ ps) \<and> commands_run ps = []"
  shows "\<exists>r tr'. lift (bind (docker_compose h ctx c kw) after) here = Some (r, tr')
           \<and> commands_run tr' = commands_run here @ [compose_command ctx c None]"
proof -
  obtain r1 there where cr: "context_run h (compose_command ctx c None)
      ((''env'', KwDict (build_env ctx [])) # kw)
      (here @ [Print (''Running docker compose command '' @ [CHR 0x22] @ c @ [CHR 0x22])])
      = (r1, there)"
    by force
  then have there: "commands_run there = commands_run here @ [compose_command ctx c None]"
    by (auto simp: commands_run_append dest!: context_run_trace)
  show ?thesis
  proof (cases r1)
    case (Inl e)
    with cr there assms(1,2) show ?thesis
      by (simp add: lift_def bind_def docker_compose_plain)
  next
    case (Inr x)
    from assms(3) [of x there] obtain r ps where "after x there = (r, there @ ps)" "commands_run ps = []"
      by blast
    with Inr cr there assms(1,2) show ?thesis
      by (simp add: lift_def bind_def docker_compose_plain commands_run_append)
  qed
qed

lemma import_db_unsupported:
  assumes "import_db_preparation h ctx tr = Some (Inr (), tr1)"
    and "\<not> is_compose_included ctx ''mysql''" and "\<not> is_compose_included ctx ''postgres''"
  shows "import_db h ctx db_name input_file tr =
           Some (Inl (ValueError ''Unsupported database backend.''), tr1)"
  using assms by (simp add: import_db_def pbind_def lift_def raise_def)

lemma import_db_mysql_command:
  assumes "import_db_preparation h ctx tr = Some (Inr (), tr1)"
    and "is_compose_included ctx ''mysql''"
  shows \<open>\<exists>r tr'. import_db h ctx db_name input_file tr = Some (r, tr')
     \<and> commands_run tr' =
       commands_run tr1 @
       [compose_command ctx
          (str_join '' ''
             [''exec -- db sh -c '' @ apos,
              ''mysql --user root --password=$MYSQL_ROOT_PASSWORD'',
              ''--execute="'',
              ''DROP DATABASE IF EXISTS ''
                @ (if db_name = [] then ''$MYSQL_DATABASE'' else db_name) @ '';'',
              ''CREATE DATABASE ''
                @ (if db_name = [] then ''$MYSQL_DATABASE'' else db_name) @ '';'',
              if (if db_name = [] then ''$MYSQL_DATABASE'' else db_name) = ''$MYSQL_DATABASE''
              then []
              else ''GRANT ALL PRIVILEGES ON '' @ db_name
                     @ ''.* TO $MYSQL_USER; FLUSH PRIVILEGES;'',
              ''"'',
              ''&&'',
              ''mysql'',
              ''--database='' @ (if db_name = [] then ''$MYSQL_DATABASE'' else db_name),
              ''--user=$MYSQL_USER'',
              ''--password=$MYSQL_PASSWORD'',
              apos,
              ''< '' @ apos @ input_file @ apos])
          None]\<close>
proof -
  have prints: "\<And>x tr. \<exists>r ps.
      py_print ''Database import complete, you can start Nautobot now: `invoke start`'' tr
        = (r, tr @ ps) \<and> commands_run ps = []"
    by (simp add: py_print_def)
  from docker_compose_then_prints [where kw = "[(''pty'', KwBool False)]" and ctx = ctx
      and h = h and here = tr1, OF _ _ prints] assms
  show ?thesis
    by (simp add: import_db_def pbind_def Let_def)
qed

lemma import_db_postgres_command:
  assumes "import_db_preparation h ctx tr = Some (Inr (), tr1)"
    and "\<not> is_compose_included ctx ''mysql''" and "is_compose_included ctx ''postgres''"
  shows \<open>\<exists>r tr'. import_db h ctx db_name input_file tr = Some (r, tr')
     \<and> commands_run tr' =
       commands_run tr1 @
       [compose_command ctx
          (str_join '' ''
             [''exec -- db sh -c '' @ apos,
              ''dropdb --if-exists --user=$POSTGRES_USER ''
                @ (if db_name = [] then ''$POSTGRES_DB'' else db_name) @ '' &&'',
              ''createdb --user=$POSTGRES_USER ''
                @ (if db_name = [] then ''$POSTGRES_DB'' else db_name) @ '' &&'',
              ''psql --user=$POSTGRES_USER --dbname=''
                @ (if db_name = [] then ''$POSTGRES_DB'' else db_name),
              apos,
              ''< '' @ apos @ input_file @ apos])
          None]\<close>
proof -
  have prints: "\<And>x tr. \<exists>r ps.
      py_print ''Database import complete, you can start Nautobot now: `invoke start`'' tr
        = (r, tr @ ps) \<and> commands_run ps = []"
    by (simp add: py_print_def)
  from docker_compose_then_prints [where kw = "[(''pty'', KwBool False)]" and ctx = ctx
      and h = h and here = tr1, OF _ _ prints] assms
  show ?thesis
    by (simp add: import_db_def pbind_def Let_def)
qed

lemma import_db_ValueError:
  assumes "import_db h ctx db_name input_file tr = Some (Inl (ValueError m), tr')"
  shows "m = ''Unsupported database backend.''
         \<and> \<not> is_compose_included ctx ''mysql'' \<and> \<not> is_compose_included ctx ''postgres''
         \<and> import_db_preparation h ctx tr = Some (Inr (), tr')"
proof -
  obtain r1 tr1 where prep: "import_db_preparation h ctx tr = Some (r1, tr1)"
    using assms by (cases "import_db_preparation h ctx tr") (auto simp: import_db_def pbind_def)
  show ?thesis
  proof (cases r1)
    case (Inl e)
    with prep assms have "e = ValueError m"
      by (simp add: import_db_def pbind_def)
    with prep Inl import_db_preparation_error [of h ctx tr e tr1] show ?thesis by auto
  next
    case (Inr u)
    show ?thesis
    proof (cases "is_compose_included ctx ''mysql'' \<or> is_compose_included ctx ''postgres''")
      case True
      with prep Inr assms obtain c kw where
        "bind (docker_compose h ctx c kw)
           (\<lambda>_. py_print ''Database import complete, you can start Nautobot now: `invoke start`'')
           tr1 = (Inl (ValueError m), tr')"
        by (auto simp: import_db_def pbind_def lift_def Let_def split: if_splits)
      then have False
        by (auto simp: bind_def py_print_def split: prod.splits sum.splits
                 dest: docker_compose_error)
      then show ?thesis ..
    next
      case False
      with prep Inr assms show ?thesis
        by (simp add: import_db_def pbind_def lift_def raise_def)
    qed
  qed
qed

lemma backup_db_unsupported:
  assumes "backup_db_preparation h ctx tr = Some (Inr (), tr1)"
    and "\<not> is_compose_included ctx ''mysql''" and "\<not> is_compose_included ctx ''postgres''"
  shows "backup_db h ctx db_name output_file readable tr =
           Some (Inl (ValueError ''Unsupported database backend.''), tr1)"
  using assms by (simp add: backup_db_def pbind_def lift_def raise_def)

lemma backup_db_prints:
  "\<exists>r ps.
     bind (py_print (replicate 50 CHR ''=''))
       (\<lambda>_. bind (py_print
  ''The database backup has been successfully completed and saved to the following file:'')
         (\<lambda>_. bind (py_print output_file)
           (\<lambda>_. bind (py_print
  ''You can import this database backup with the following command:'')
             (\<lambda>_. bind (py_print (''invoke import-db --input-file '' @ apos
                                     @ output_file @ apos))
               (\<lambda>_. py_print (replicate 50 CHR ''='')))))) tr
     = (r, tr @ ps) \<and> commands_run ps = []"
  by (simp add: bind_def py_print_def)

lemma backup_db_mysql_command:
  assumes "backup_db_preparation h ctx tr = Some (Inr (), tr1)"
    and "is_compose_included ctx ''mysql''"
  shows \<open>\<exists>r tr'. backup_db h ctx db_name output_file readable tr = Some (r, tr')
     \<and> commands_run tr' =
       commands_run tr1 @
       [compose_command ctx
          (str_join '' ''
             [''exec -- db sh -c '' @ apos,
              ''mysqldump'',
              ''--user=root'',
              ''--password=$MYSQL_ROOT_PASSWORD'',
              if readable then ''--skip-extended-insert'' else [],
              if db_name \<noteq> [] then db_name else ''$MYSQL_DATABASE'',
              apos,
              ''> '' @ apos @ output_file @ apos])
          None]\<close>
  using docker_compose_then_prints [where kw = "[(''pty'', KwBool False)]" and ctx = ctx
      and h = h and here = tr1, OF _ _ backup_db_prints] assms
  by (simp add: backup_db_def pbind_def Let_def)

lemma backup_db_postgres_command:
  assumes "backup_db_preparation h ctx tr = Some (Inr (), tr1)"
    and "\<not> is_compose_included ctx ''mysql''" and "is_compose_included ctx ''postgres''"
  shows \<open>\<exists>r tr'. backup_db h ctx db_name output_file readable tr = Some (r, tr')
     \<and> commands_run tr' =
       commands_run tr1 @
       [compose_command ctx
          (str_join '' ''
             [''exec -- db sh -c '' @ apos,
              ''pg_dump'',
              ''--username=$POSTGRES_USER'',
              ''--dbname='' @ (if db_name \<noteq> [] then db_name else ''$POSTGRES_DB''),
              if readable then ''--inserts'' else [],
              apos,
              ''> '' @ apos @ output_file @ apos])
          None]\<close>
  using docker_compose_then_prints [where kw = "[(''pty'', KwBool False)]" and ctx = ctx
      and h = h and here = tr1, OF _ _ backup_db_prints] assms
  by (simp add: backup_db_def pbind_def Let_def)

lemma backup_db_ValueError:
  assumes "backup_db h ctx db_name output_file readable tr = Some (Inl (ValueError m), tr')"
  shows "m = ''Unsupported database backend.''
         \<and> \<not> is_compose_included ctx ''mysql'' \<and> \<not> is_compose_included ctx ''postgres''
         \<and> backup_db_preparation h ctx tr = Some (Inr (), tr')"
proof -
  obtain r1 tr1 where prep: "backup_db_preparation h ctx tr = Some (r1, tr1)"
    using assms by (cases "backup_db_preparation h ctx tr") (auto simp: backup_db_def pbind_def)
  show ?thesis
  proof (cases r1)
    case (Inl e)
    with prep assms have "e = ValueError m"
      by (simp add: backup_db_def pbind_def)
    with prep Inl backup_db_preparation_error [of h ctx tr e tr1] show ?thesis by auto
  next
    case (Inr u)
    show ?thesis
    proof (cases "is_compose_included ctx ''mysql'' \<or> is_compose_included ctx ''postgres''")
      case True
      with prep Inr assms obtain c kw after where
        "bind (docker_compose h ctx c kw) after tr1 = (Inl (ValueError m), tr')"
        and "\<And>x tr. \<exists>r ps. after x tr = (r, tr @ ps) \<and> r = Inr ()"
        by (auto simp: backup_db_def pbind_def lift_def Let_def py_print_def bind_def
                 split: if_splits)
      then have False
        by (auto simp: bind_def split: prod.splits sum.splits
                 dest: docker_compose_error) (metis Inl_Inr_False fst_conv)
      then show ?thesis ..
    next
      case False
      with prep Inr assms show ?thesis
        by (simp add: backup_db_def pbind_def lift_def raise_def)
    qed
  qed
qed

text \<open>On the example host both preparations succeed, whatever the configuration.\<close>

lemma example_host_import_db_preparation:
  \<open>import_db_preparation example_host ctx tr =
     Some (Inr (),
       tr @
       [Print ''Running docker compose command "stop -- nautobot worker beat"'',
        Run (compose_command ctx ''stop -- nautobot worker beat'' None)
          [(''env'', KwDict (build_env ctx []))],
        Print ''Starting Nautobot in detached mode...'',
        Print ''Running docker compose command "up --detach"'',
        Run (compose_command ctx ''up --detach'' (Some ''db''))
          [(''env'', KwDict (build_env ctx []))],
        Print ''Running docker compose command "ps -q -- db"'',
        Run (compose_command ctx ''ps -q -- db'' None)
          [(''env'', KwDict (build_env ctx [])),
           (''pty'', KwBool False), (''echo'', KwBool False), (''hide'', KwBool True)],
        Run (''docker inspect --format='' @ apos @ ''{{.State.Health.Status}}'' @ apos
               @ '' 4f2a9c'')
          [(''pty'', KwBool False), (''echo'', KwBool False), (''hide'', KwBool True)]])\<close>
  by (simp add: import_db_preparation_def pbind_def lift_def bind_def docker_compose_def
        py_print_def context_run_def start_def ret_def await_healthy_service_def Let_def
        example_host_sel example_host_healthy compose_command_def str_strip_def is_space_def)

lemma example_host_backup_db_preparation:
  \<open>backup_db_preparation example_host ctx tr =
     Some (Inr (),
       tr @
       [Print ''Starting Nautobot in detached mode...'',
        Print ''Running docker compose command "up --detach"'',
        Run (compose_command ctx ''up --detach'' (Some ''db''))
          [(''env'', KwDict (build_env ctx []))],
        Print ''Running docker compose command "ps -q -- db"'',
        Run (compose_command ctx ''ps -q -- db'' None)
          [(''env'', KwDict (build_env ctx [])),
           (''pty'', KwBool False), (''echo'', KwBool False), (''hide'', KwBool True)],
        Run (''docker inspect --format='' @ apos @ ''{{.State.Health.Status}}'' @ apos
               @ '' 4f2a9c'')
          [(''pty'', KwBool False), (''echo'', KwBool False), (''hide'', KwBool True)]])\<close>
  by (simp add: backup_db_preparation_def pbind_def lift_def bind_def docker_compose_def
        py_print_def context_run_def start_def ret_def await_healthy_service_def Let_def
        example_host_sel example_host_healthy compose_command_def str_strip_def is_space_def)

lemma example_configs:
  "\<not> is_compose_included no_db_config ''mysql''"
  "\<not> is_compose_included no_db_config ''postgres''"
  "is_compose_included mysql_config ''mysql''"
  "\<not> is_compose_included mysql_config ''postgres''"
  "\<not> is_compose_included postgres_config ''mysql''"
  "is_compose_included postgres_config ''postgres''"
  "is_compose_included both_config ''mysql''"
  "is_compose_included both_config ''postgres''"
  by (simp_all add: is_compose_included_def cfg_defs)

section \<open>Mutually exclusive arguments\<close>




section \<open>The dialect of the database backend\<close>

text \<open>
  C4, as stated, fails: a configuration without a database backend does not make every
  call raise the unsupported-backend error. \<open>dbshell\<close> checks its arguments first and
  raises their error; \<open>import_db\<close> runs docker compose first and raises \<^verbatim>\<open>UnexpectedExit\<close>
  when that fails.
\<close>

theorem unsupported_backend_counterexample:
  \<open>\<not> is_compose_included no_db_config ''mysql''
   \<and> \<not> is_compose_included no_db_config ''postgres''
   \<and> dbshell example_host no_db_config [] ''in.sql'' [] ''SELECT 1'' [] =
       (Inl (ValueError ''Cannot specify both, `input_file` and `query` arguments''), [])
   \<and> ValueError ''Cannot specify both, `input_file` and `query` arguments''
       \<noteq> ValueError ''Unsupported database backend.''
   \<and> import_db failing_host no_db_config [] ''dump.sql'' [] =
       Some (Inl (UnexpectedExit
                    (compose_command no_db_config ''stop -- nautobot worker beat'' None)),
             [Print ''Running docker compose command "stop -- nautobot worker beat"'',
              Run (compose_command no_db_config ''stop -- nautobot worker beat'' None)
                [(''env'', KwDict (build_env no_db_config []))]])\<close>
  by (simp add: example_configs dbshell_both_sources import_db_def import_db_preparation_def
        pbind_def lift_def docker_compose_plain context_run_def failing_host_sel)

text \<open>
  C4, amended. Once the two argument checks of \<open>dbshell\<close> have passed, and once the
  preparation of \<open>import_db\<close> or \<open>backup_db\<close> has returned normally: with neither database
  file in \<open>compose_files\<close> the function raises \<^verbatim>\<open>ValueError("Unsupported database backend.")\<close>
  and starts no further command; with the MySQL file it starts exactly one further command,
  in the MySQL dialect (\<^verbatim>\<open>mysql\<close>, \<^verbatim>\<open>mysqldump\<close>); with the PostgreSQL file and no MySQL file
  it starts exactly one further command, in the PostgreSQL dialect (\<^verbatim>\<open>psql\<close>, \<^verbatim>\<open>dropdb\<close>,
  \<^verbatim>\<open>createdb\<close>, \<^verbatim>\<open>pg_dump\<close>).
\<close>

theorem database_backend_dialect:
  \<open>(\<not> (input_file \<noteq> [] \<and> query \<noteq> [])
      \<and> \<not> (output_file \<noteq> [] \<and> input_file = [] \<and> query = []) \<longrightarrow>
      (\<not> is_compose_included ctx ''mysql'' \<and> \<not> is_compose_included ctx ''postgres'' \<longrightarrow>
         dbshell h ctx db_name input_file output_file query tr =
           (Inl (ValueError ''Unsupported database backend.''), tr))
      \<and> (is_compose_included ctx ''mysql'' \<longrightarrow>
         commands_run (snd (dbshell h ctx db_name input_file output_file query tr)) =
           commands_run tr @
           [compose_command ctx
              (str_join '' ''
                 [''exec'',
                  if query \<noteq> [] then ''--env=_SQL_QUERY'' else [],
                  ''-- db sh -c '' @ apos,
                  ''mysql'',
                  ''--user=$MYSQL_USER'',
                  ''--password=$MYSQL_PASSWORD'',
                  ''--database='' @ (if db_name \<noteq> [] then db_name else ''$MYSQL_DATABASE''),
                  apos,
                  if query \<noteq> [] then ''<<<"$_SQL_QUERY"'' else [],
                  if input_file \<noteq> [] then ''< '' @ apos @ input_file @ apos else [],
                  if output_file \<noteq> [] then ''> '' @ apos @ output_file @ apos else []])
              None])
      \<and> (\<not> is_compose_included ctx ''mysql'' \<and> is_compose_included ctx ''postgres'' \<longrightarrow>
         commands_run (snd (dbshell h ctx db_name input_file output_file query tr)) =
           commands_run tr @
           [compose_command ctx
              (str_join '' ''
                 [''exec'',
                  if query \<noteq> [] then ''--env=_SQL_QUERY'' else [],
                  ''-- db sh -c '' @ apos,
                  ''psql'',
                  ''--username=$POSTGRES_USER'',
                  ''--dbname='' @ (if db_name \<noteq> [] then db_name else ''$POSTGRES_DB''),
                  apos,
                  if query \<noteq> [] then ''<<<"$_SQL_QUERY"'' else [],
                  if input_file \<noteq> [] then ''< '' @ apos @ input_file @ apos else [],
                  if output_file \<noteq> [] then ''> '' @ apos @ output_file @ apos else []])
              None]))
   \<and> (import_db_preparation h ctx tr = Some (Inr (), prepared) \<longrightarrow>
      (\<not> is_compose_included ctx ''mysql'' \<and> \<not> is_compose_included ctx ''postgres'' \<longrightarrow>
         import_db h ctx db_name input_file tr =
           Some (Inl (ValueError ''Unsupported database backend.''), prepared))
      \<and> (is_compose_included ctx ''mysql'' \<longrightarrow>
         (\<exists>r tr'. import_db h ctx db_name input_file tr = Some (r, tr')
            \<and> commands_run tr' =
              commands_run prepared @
              [compose_command ctx
                 (str_join '' ''
                    [''exec -- db sh -c '' @ apos,
                     ''mysql --user root --password=$MYSQL_ROOT_PASSWORD'',
                     ''--execute="'',
                     ''DROP DATABASE IF EXISTS ''
                       @ (if db_name = [] then ''$MYSQL_DATABASE'' else db_name) @ '';'',
                     ''CREATE DATABASE ''
                       @ (if db_name = [] then ''$MYSQL_DATABASE'' else db_name) @ '';'',
                     if (if db_name = [] then ''$MYSQL_DATABASE'' else db_name)
                          = ''$MYSQL_DATABASE''
                     then []
                     else ''GRANT ALL PRIVILEGES ON '' @ db_name
                            @ ''.* TO $MYSQL_USER; FLUSH PRIVILEGES;'',
                     ''"'',
                     ''&&'',
                     ''mysql'',
                     ''--database='' @ (if db_name = [] then ''$MYSQL_DATABASE'' else db_name),
                     ''--user=$MYSQL_USER'',
                     ''--password=$MYSQL_PASSWORD'',
                     apos,
                     ''< '' @ apos @ input_file @ apos])
                 None]))
      \<and> (\<not> is_compose_included ctx ''mysql'' \<and> is_compose_included ctx ''postgres'' \<longrightarrow>
         (\<exists>r tr'. import_db h ctx db_name input_file tr = Some (r, tr')
            \<and> commands_run tr' =
              commands_run prepared @
              [compose_command ctx
                 (str_join '' ''
                    [''exec -- db sh -c '' @ apos,
                     ''dropdb --if-exists --user=$POSTGRES_USER ''
                       @ (if db_name = [] then ''$POSTGRES_DB'' else db_name) @ '' &&'',
                     ''createdb --user=$POSTGRES_USER ''
                       @ (if db_name = [] then ''$POSTGRES_DB'' else db_name) @ '' &&'',
                     ''psql --user=$POSTGRES_USER --dbname=''
                       @ (if db_name = [] then ''$POSTGRES_DB'' else db_name),
                     apos,
                     ''< '' @ apos @ input_file @ apos])
                 None])))
   \<and> (backup_db_preparation h ctx tr = Some (Inr (), prepared) \<longrightarrow>
      (\<not> is_compose_included ctx ''mysql'' \<and> \<not> is_compose_included ctx ''postgres'' \<longrightarrow>
         backup_db h ctx db_name output_file readable tr =
           Some (Inl (ValueError ''Unsupported database backend.''), prepared))
      \<and> (is_compose_included ctx ''mysql'' \<longrightarrow>
         (\<exists>r tr'. backup_db h ctx db_name output_file readable tr = Some (r, tr')
            \<and> commands_run tr' =
              commands_run prepared @
              [compose_command ctx
                 (str_join '' ''
                    [''exec -- db sh -c '' @ apos,
                     ''mysqldump'',
                     ''--user=root'',
                     ''--password=$MYSQL_ROOT_PASSWORD'',
                     if readable then ''--skip-extended-insert'' else [],
                     if db_name \<noteq> [] then db_name else ''$MYSQL_DATABASE'',
                     apos,
                     ''> '' @ apos @ output_file @ apos])
                 None]))
      \<and> (\<not> is_compose_included ctx ''mysql'' \<and> is_compose_included ctx ''postgres'' \<longrightarrow>
         (\<exists>r tr'. backup_db h ctx db_name output_file readable tr = Some (r, tr')
            \<and> commands_run tr' =
              commands_run prepared @
              [compose_command ctx
                 (str_join '' ''
                    [''exec -- db sh -c '' @ apos,
                     ''pg_dump'',
                     ''--username=$POSTGRES_USER'',
                     ''--dbname='' @ (if db_name \<noteq> [] then db_name else ''$POSTGRES_DB''),
                     if readable then ''--inserts'' else [],
                     apos,
                     ''> '' @ apos @ output_file @ apos])
                 None])))\<close>
  by (intro conjI impI; (elim conjE)?;
      (rule dbshell_unsupported dbshell_mysql_command dbshell_postgres_command
            import_db_unsupported import_db_mysql_command import_db_postgres_command
            backup_db_unsupported backup_db_mysql_command backup_db_postgres_command;
       assumption))

theorem database_backend_dialect_witness:
  \<open>dbshell example_host no_db_config [] [] [] ''SELECT 1'' [] =
     (Inl (ValueError ''Unsupported database backend.''), [])
   \<and> (\<exists>prepared. import_db_preparation example_host no_db_config [] = Some (Inr (), prepared)
         \<and> import_db example_host no_db_config [] ''dump.sql'' [] =
            Some (Inl (ValueError ''Unsupported database backend.''), prepared))
   \<and> (\<exists>prepared. backup_db_preparation example_host no_db_config [] = Some (Inr (), prepared)
         \<and> backup_db example_host no_db_config [] ''dump.sql'' True [] =
            Some (Inl (ValueError ''Unsupported database backend.''), prepared))
   \<and> commands_run (snd (dbshell example_host mysql_config [] [] [] ''SELECT 1'' [])) =
       [compose_command mysql_config
          (''exec --env=_SQL_QUERY -- db sh -c '' @ apos
             @ '' mysql --user=$MYSQL_USER --password=$MYSQL_PASSWORD''
             @ '' --database=$MYSQL_DATABASE '' @ apos @ '' <<<"$_SQL_QUERY"  '')
          None]
   \<and> (\<exists>prepared r tr'.
         import_db_preparation example_host mysql_config [] = Some (Inr (), prepared)
         \<and> import_db example_host mysql_config [] ''dump.sql'' [] = Some (r, tr')
         \<and> commands_run tr' =
            commands_run prepared @
            [compose_command mysql_config
               (''exec -- db sh -c '' @ apos
                  @ '' mysql --user root --password=$MYSQL_ROOT_PASSWORD --execute="''
                  @ '' DROP DATABASE IF EXISTS $MYSQL_DATABASE;''
                  @ '' CREATE DATABASE $MYSQL_DATABASE;  " && mysql''
                  @ '' --database=$MYSQL_DATABASE --user=$MYSQL_USER''
                  @ '' --password=$MYSQL_PASSWORD '' @ apos @ '' < '' @ apos @ ''dump.sql''
                  @ apos)
               None])
   \<and> (\<exists>prepared r tr'.
         backup_db_preparation example_host mysql_config [] = Some (Inr (), prepared)
         \<and> backup_db example_host mysql_config ''x'' ''dump.sql'' True [] = Some (r, tr')
         \<and> commands_run tr' =
            commands_run prepared @
            [compose_command mysql_config
               (''exec -- db sh -c '' @ apos
                  @ '' mysqldump --user=root --password=$MYSQL_ROOT_PASSWORD''
                  @ '' --skip-extended-insert x '' @ apos @ '' > '' @ apos @ ''dump.sql''
                  @ apos)
               None])
   \<and> commands_run (snd (dbshell example_host postgres_config [] ''in.sql'' ''out.txt'' [] [])) =
       [compose_command postgres_config
          (''exec  -- db sh -c '' @ apos
             @ '' psql --username=$POSTGRES_USER --dbname=$POSTGRES_DB '' @ apos
             @ ''  < '' @ apos @ ''in.sql'' @ apos @ '' > '' @ apos @ ''out.txt'' @ apos)
          None]
   \<and> (\<exists>prepared r tr'.
         import_db_preparation example_host postgres_config [] = Some (Inr (), prepared)
         \<and> import_db example_host postgres_config [] ''dump.sql'' [] = Some (r, tr')
         \<and> commands_run tr' =
            commands_run prepared @
            [compose_command postgres_config
               (''exec -- db sh -c '' @ apos
                  @ '' dropdb --if-exists --user=$POSTGRES_USER $POSTGRES_DB &&''
                  @ '' createdb --user=$POSTGRES_USER $POSTGRES_DB &&''
                  @ '' psql --user=$POSTGRES_USER --dbname=$POSTGRES_DB '' @ apos
                  @ '' < '' @ apos @ ''dump.sql'' @ apos)
               None])
   \<and> (\<exists>prepared r tr'.
         backup_db_preparation example_host postgres_config [] = Some (Inr (), prepared)
         \<and> backup_db example_host postgres_config [] ''dump.sql'' False [] = Some (r, tr')
         \<and> commands_run tr' =
            commands_run prepared @
            [compose_command postgres_config
               (''exec -- db sh -c '' @ apos
                  @ '' pg_dump --username=$POSTGRES_USER --dbname=$POSTGRES_DB  '' @ apos
                  @ '' > '' @ apos @ ''dump.sql'' @ apos)
               None])\<close>
proof -
  obtain p where p: "\<And>ctx. import_db_preparation example_host ctx [] = Some (Inr (), p ctx)"
    by (simp add: example_host_import_db_preparation)
  obtain q where q: "\<And>ctx. backup_db_preparation example_host ctx [] = Some (Inr (), q ctx)"
    by (simp add: example_host_backup_db_preparation)
  have none:
    "dbshell example_host no_db_config [] [] [] ''SELECT 1'' [] =
       (Inl (ValueError ''Unsupported database backend.''), [])"
    "import_db example_host no_db_config [] ''dump.sql'' [] =
       Some (Inl (ValueError ''Unsupported database backend.''), p no_db_config)"
    using database_backend_dialect
      [where h = example_host and ctx = no_db_config and db_name = "[]" and input_file = "[]"
         and output_file = "[]" and query = "''SELECT 1''" and tr = "[]"
         and prepared = "p no_db_config"]
      database_backend_dialect
      [where h = example_host and ctx = no_db_config and db_name = "[]"
         and input_file = "''dump.sql''" and tr = "[]" and prepared = "p no_db_config"]
    by (simp_all add: example_configs p)
  have none_backup:
    "backup_db example_host no_db_config [] ''dump.sql'' True [] =
       Some (Inl (ValueError ''Unsupported database backend.''), q no_db_config)"
    using database_backend_dialect
      [where h = example_host and ctx = no_db_config and db_name = "[]"
         and output_file = "''dump.sql''" and readable = True and tr = "[]"
         and prepared = "q no_db_config"]
    by (simp add: example_configs q)
  have mysql_shell:
    \<open>commands_run (snd (dbshell example_host mysql_config [] [] [] ''SELECT 1'' [])) =
       [compose_command mysql_config
          (''exec --env=_SQL_QUERY -- db sh -c '' @ apos
             @ '' mysql --user=$MYSQL_USER --password=$MYSQL_PASSWORD''
             @ '' --database=$MYSQL_DATABASE '' @ apos @ '' <<<"$_SQL_QUERY"  '')
          None]\<close>
    using database_backend_dialect
      [where h = example_host and ctx = mysql_config and db_name = "[]" and input_file = "[]"
         and output_file = "[]" and query = "''SELECT 1''" and tr = "[]"]
    by (simp add: example_configs)
  have mysql_import:
    \<open>\<exists>r tr'. import_db example_host mysql_config [] ''dump.sql'' [] = Some (r, tr')
         \<and> commands_run tr' =
            commands_run (p mysql_config) @
            [compose_command mysql_config
               (''exec -- db sh -c '' @ apos
                  @ '' mysql --user root --password=$MYSQL_ROOT_PASSWORD --execute="''
                  @ '' DROP DATABASE IF EXISTS $MYSQL_DATABASE;''
                  @ '' CREATE DATABASE $MYSQL_DATABASE;  " && mysql''
                  @ '' --database=$MYSQL_DATABASE --user=$MYSQL_USER''
                  @ '' --password=$MYSQL_PASSWORD '' @ apos @ '' < '' @ apos @ ''dump.sql''
                  @ apos)
               None]\<close>
    using database_backend_dialect
      [where h = example_host and ctx = mysql_config and db_name = "[]"
         and input_file = "''dump.sql''" and tr = "[]" and prepared = "p mysql_config"]
    by (simp add: example_configs p)
  have mysql_backup:
    \<open>\<exists>r tr'. backup_db example_host mysql_config ''x'' ''dump.sql'' True [] = Some (r, tr')
         \<and> commands_run tr' =
            commands_run (q mysql_config) @
            [compose_command mysql_config
               (''exec -- db sh -c '' @ apos
                  @ '' mysqldump --user=root --password=$MYSQL_ROOT_PASSWORD''
                  @ '' --skip-extended-insert x '' @ apos @ '' > '' @ apos @ ''dump.sql''
                  @ apos)
               None]\<close>
    using database_backend_dialect
      [where h = example_host and ctx = mysql_config and db_name = "''x''"
         and output_file = "''dump.sql''" and readable = True and tr = "[]"
         and prepared = "q mysql_config"]
    by (simp add: example_configs q)
  have postgres_shell:
    \<open>commands_run (snd (dbshell example_host postgres_config [] ''in.sql'' ''out.txt'' [] [])) =
       [compose_command postgres_config
          (''exec  -- db sh -c '' @ apos
             @ '' psql --username=$POSTGRES_USER --dbname=$POSTGRES_DB '' @ apos
             @ ''  < '' @ apos @ ''in.sql'' @ apos @ '' > '' @ apos @ ''out.txt'' @ apos)
          None]\<close>
    using database_backend_dialect
      [where h = example_host and ctx = postgres_config and db_name = "[]"
         and input_file = "''in.sql''" and output_file = "''out.txt''" and query = "[]"
         and tr = "[]"]
    by (simp add: example_configs)
  have postgres_import:
    \<open>\<exists>r tr'. import_db example_host postgres_config [] ''dump.sql'' [] = Some (r, tr')
         \<and> commands_run tr' =
            commands_run (p postgres_config) @
            [compose_command postgres_config
               (''exec -- db sh -c '' @ apos
                  @ '' dropdb --if-exists --user=$POSTGRES_USER $POSTGRES_DB &&''
                  @ '' createdb --user=$POSTGRES_USER $POSTGRES_DB &&''
                  @ '' psql --user=$POSTGRES_USER --dbname=$POSTGRES_DB '' @ apos
                  @ '' < '' @ apos @ ''dump.sql'' @ apos)
               None]\<close>
    using database_backend_dialect
      [where h = example_host and ctx = postgres_config and db_name = "[]"
         and input_file = "''dump.sql''" and tr = "[]" and prepared = "p postgres_config"]
    by (simp add: example_configs p)
  have postgres_backup:
    \<open>\<exists>r tr'. backup_db example_host postgres_config [] ''dump.sql'' False [] = Some (r, tr')
         \<and> commands_run tr' =
            commands_run (q postgres_config) @
            [compose_command postgres_config
               (''exec -- db sh -c '' @ apos
                  @ '' pg_dump --username=$POSTGRES_USER --dbname=$POSTGRES_DB  '' @ apos
                  @ '' > '' @ apos @ ''dump.sql'' @ apos)
               None]\<close>
    using database_backend_dialect
      [where h = example_host and ctx = postgres_config and db_name = "[]"
         and output_file = "''dump.sql''" and readable = False and tr = "[]"
         and prepared = "q postgres_config"]
    by (simp add: example_configs q)
  from none none_backup mysql_shell mysql_import mysql_backup
    postgres_shell postgres_import postgres_backup p q
  show ?thesis
    by blast
qed

section \<open>Both database files in the configuration\<close>

text \<open>
  C10. When \<open>compose_files\<close> holds both the MySQL and the PostgreSQL file, each of
  \<open>dbshell\<close>, \<open>import_db\<close> and \<open>backup_db\<close> is the task that assembles and runs the MySQL
  command: the membership check for MySQL comes first, and the PostgreSQL branch plays no
  part in what the function does.
\<close>

theorem mysql_checked_first:
  assumes "is_compose_included ctx ''mysql''" and "is_compose_included ctx ''postgres''"
  shows
  \<open>dbshell h ctx db_name input_file output_file query =
     (if input_file \<noteq> [] \<and> query \<noteq> [] then
        raise (ValueError ''Cannot specify both, `input_file` and `query` arguments'')
      else if output_file \<noteq> [] \<and> input_file = [] \<and> query = [] then
        raise (ValueError ''`output_file` argument requires `input_file` or `query` argument'')
      else
        bind (docker_compose h ctx
                (str_join '' ''
                   [''exec'',
                    if query \<noteq> [] then ''--env=_SQL_QUERY'' else [],
                    ''-- db sh -c '' @ apos,
                    ''mysql'',
                    ''--user=$MYSQL_USER'',
                    ''--password=$MYSQL_PASSWORD'',
                    ''--database='' @ (if db_name \<noteq> [] then db_name else ''$MYSQL_DATABASE''),
                    apos,
                    if query \<noteq> [] then ''<<<"$_SQL_QUERY"'' else [],
                    if input_file \<noteq> [] then ''< '' @ apos @ input_file @ apos else [],
                    if output_file \<noteq> [] then ''> '' @ apos @ output_file @ apos else []])
                [(''env'', KwDict (if query \<noteq> [] then [(''_SQL_QUERY'', query)] else [])),
                 (''pty'', KwBool (input_file = [] \<and> output_file = [] \<and> query = []))])
          (\<lambda>_. ret ()))
   \<and> import_db h ctx db_name input_file =
     pbind (import_db_preparation h ctx)
       (\<lambda>_. lift
          (bind (docker_compose h ctx
                   (str_join '' ''
                      [''exec -- db sh -c '' @ apos,
                       ''mysql --user root --password=$MYSQL_ROOT_PASSWORD'',
                       ''--execute="'',
                       ''DROP DATABASE IF EXISTS ''
                         @ (if db_name = [] then ''$MYSQL_DATABASE'' else db_name) @ '';'',
                       ''CREATE DATABASE ''
                         @ (if db_name = [] then ''$MYSQL_DATABASE'' else db_name) @ '';'',
                       if (if db_name = [] then ''$MYSQL_DATABASE'' else db_name)
                            = ''$MYSQL_DATABASE''
                       then []
                       else ''GRANT ALL PRIVILEGES ON '' @ db_name
                              @ ''.* TO $MYSQL_USER; FLUSH PRIVILEGES;'',
                       ''"'',
                       ''&&'',
                       ''mysql'',
                       ''--database='' @ (if db_name = [] then ''$MYSQL_DATABASE'' else db_name),
                       ''--user=$MYSQL_USER'',
                       ''--password=$MYSQL_PASSWORD'',
                       apos,
                       ''< '' @ apos @ input_file @ apos])
                   [(''pty'', KwBool False)])
             (\<lambda>_. py_print
                ''Database import complete, you can start Nautobot now: `invoke start`'')))
   \<and> backup_db h ctx db_name output_file readable =
     pbind (backup_db_preparation h ctx)
       (\<lambda>_. lift
          (bind (docker_compose h ctx
                   (str_join '' ''
                      [''exec -- db sh -c '' @ apos,
                       ''mysqldump'',
                       ''--user=root'',
                       ''--password=$MYSQL_ROOT_PASSWORD'',
                       if readable then ''--skip-extended-insert'' else [],
                       if db_name \<noteq> [] then db_name else ''$MYSQL_DATABASE'',
                       apos,
                       ''> '' @ apos @ output_file @ apos])
                   [(''pty'', KwBool False)])
             (\<lambda>_. bind (py_print (replicate 50 CHR ''=''))
               (\<lambda>_. bind (py_print
  ''The database backup has been successfully completed and saved to the following file:'')
                 (\<lambda>_. bind (py_print output_file)
                   (\<lambda>_. bind (py_print
  ''You can import this database backup with the following command:'')
                     (\<lambda>_. bind (py_print (''invoke import-db --input-file '' @ apos
                                             @ output_file @ apos))
                       (\<lambda>_. py_print (replicate 50 CHR ''='')))))))))\<close>
  using assms(1)
  by (intro conjI) (auto simp add: dbshell_def import_db_def backup_db_def Let_def)

theorem mysql_checked_first_witness:
  \<open>is_compose_included both_config ''mysql''
   \<and> is_compose_included both_config ''postgres''
   \<and> dbshell example_host both_config [] [] [] [] [] =
       (Inr (),
        [Print (''Running docker compose command "exec  -- db sh -c '' @ apos
                  @ '' mysql --user=$MYSQL_USER --password=$MYSQL_PASSWORD''
                  @ '' --database=$MYSQL_DATABASE '' @ apos @ ''   "''),
         Run (compose_command both_config
                (''exec  -- db sh -c '' @ apos
                   @ '' mysql --user=$MYSQL_USER --password=$MYSQL_PASSWORD''
                   @ '' --database=$MYSQL_DATABASE '' @ apos @ ''   '')
                None)
           [(''env'', KwDict (build_env both_config [])), (''pty'', KwBool True)]])
   \<and> (\<exists>tr'. import_db example_host both_config ''nautobot'' ''dump.sql'' [] = Some (Inr (), tr')
         \<and> commands_run tr' =
            [compose_command both_config ''stop -- nautobot worker beat'' None,
             compose_command both_config ''up --detach'' (Some ''db''),
             compose_command both_config ''ps -q -- db'' None,
             ''docker inspect --format='' @ apos @ ''{{.State.Health.Status}}'' @ apos
               @ '' 4f2a9c'',
             compose_command both_config
               (''exec -- db sh -c '' @ apos
                  @ '' mysql --user root --password=$MYSQL_ROOT_PASSWORD --execute="''
                  @ '' DROP DATABASE IF EXISTS nautobot; CREATE DATABASE nautobot;''
                  @ '' GRANT ALL PRIVILEGES ON nautobot.* TO $MYSQL_USER; FLUSH PRIVILEGES;''
                  @ '' " && mysql --database=nautobot --user=$MYSQL_USER''
                  @ '' --password=$MYSQL_PASSWORD '' @ apos @ '' < '' @ apos @ ''dump.sql''
                  @ apos)
               None])
   \<and> (\<exists>tr'. backup_db example_host both_config [] ''dump.sql'' False [] = Some (Inr (), tr')
         \<and> commands_run tr' =
            [compose_command both_config ''up --detach'' (Some ''db''),
             compose_command both_config ''ps -q -- db'' None,
             ''docker inspect --format='' @ apos @ ''{{.State.Health.Status}}'' @ apos
               @ '' 4f2a9c'',
             compose_command both_config
               (''exec -- db sh -c '' @ apos
                  @ '' mysqldump --user=root --password=$MYSQL_ROOT_PASSWORD''
                  @ ''  $MYSQL_DATABASE '' @ apos @ '' > '' @ apos @ ''dump.sql'' @ apos)
               None])\<close>
proof -
  note both = mysql_checked_first [OF example_configs(7,8), of example_host]
  have shell: \<open>dbshell example_host both_config [] [] [] [] [] =
       (Inr (),
        [Print (''Running docker compose command "exec  -- db sh -c '' @ apos
                  @ '' mysql --user=$MYSQL_USER --password=$MYSQL_PASSWORD''
                  @ '' --database=$MYSQL_DATABASE '' @ apos @ ''   "''),
         Run (compose_command both_config
                (''exec  -- db sh -c '' @ apos
                   @ '' mysql --user=$MYSQL_USER --password=$MYSQL_PASSWORD''
                   @ '' --database=$MYSQL_DATABASE '' @ apos @ ''   '')
                None)
           [(''env'', KwDict (build_env both_config [])), (''pty'', KwBool True)]])\<close>
    by (simp add: both bind_def docker_compose_def py_print_def context_run_def ret_def
          example_host_sel build_env_def)
  have imported: \<open>\<exists>tr'. import_db example_host both_config ''nautobot'' ''dump.sql'' [] =
           Some (Inr (), tr')
         \<and> commands_run tr' =
            [compose_command both_config ''stop -- nautobot worker beat'' None,
             compose_command both_config ''up --detach'' (Some ''db''),
             compose_command both_config ''ps -q -- db'' None,
             ''docker inspect --format='' @ apos @ ''{{.State.Health.Status}}'' @ apos
               @ '' 4f2a9c'',
             compose_command both_config
               (''exec -- db sh -c '' @ apos
                  @ '' mysql --user root --password=$MYSQL_ROOT_PASSWORD --execute="''
                  @ '' DROP DATABASE IF EXISTS nautobot; CREATE DATABASE nautobot;''
                  @ '' GRANT ALL PRIVILEGES ON nautobot.* TO $MYSQL_USER; FLUSH PRIVILEGES;''
                  @ '' " && mysql --database=nautobot --user=$MYSQL_USER''
                  @ '' --password=$MYSQL_PASSWORD '' @ apos @ '' < '' @ apos @ ''dump.sql''
                  @ apos)
               None]\<close>
    by (simp add: both pbind_def lift_def bind_def example_host_import_db_preparation
          docker_compose_plain py_print_def context_run_def example_host_sel)
  have backup: \<open>\<exists>tr'. backup_db example_host both_config [] ''dump.sql'' False [] =
           Some (Inr (), tr')
         \<and> commands_run tr' =
            [compose_command both_config ''up --detach'' (Some ''db''),
             compose_command both_config ''ps -q -- db'' None,
             ''docker inspect --format='' @ apos @ ''{{.State.Health.Status}}'' @ apos
               @ '' 4f2a9c'',
             compose_command both_config
               (''exec -- db sh -c '' @ apos
                  @ '' mysqldump --user=root --password=$MYSQL_ROOT_PASSWORD''
                  @ ''  $MYSQL_DATABASE '' @ apos @ '' > '' @ apos @ ''dump.sql'' @ apos)
               None]\<close>
    by (simp add: both pbind_def lift_def bind_def example_host_backup_db_preparation
          docker_compose_plain py_print_def context_run_def example_host_sel)
  from shell imported backup example_configs(7,8) show ?thesis
    by blast
qed

section \<open>Guards and external commands\<close>

lemma run_command_invalid_truthy:
  "is_truthy (local ctx) = Inl e \<Longrightarrow> run_command h ctx command kwargs tr = (Inl e, tr)"
  by (simp add: run_command_def raise_def)

lemma docs_invalid_truthy:
  "is_truthy (local ctx) = Inl e \<Longrightarrow> docs h ctx tr = (Inl e, tr)"
  by (simp add: docs_def raise_def)

text \<open>
  Whatever \<open>destroy\<close> returns or raises, it has started \<^verbatim>\<open>docker compose ... down\<close> first.
\<close>

lemma destroy_runs_down_first:
  assumes "destroy h ctx volumes import_db_file tr = Some (r, tr')"
  shows "\<exists>rest. commands_run tr' =
           commands_run tr
           @ compose_command ctx
               (''down --remove-orphans '' @ (if volumes then ''--volumes'' else [])) None
           # rest"
proof -
  let ?down = "''down --remove-orphans '' @ (if volumes then ''--volumes'' else [])"
  obtain r1 tr1 where dc:
    "docker_compose h ctx ?down [] (tr @ [Print ''Destroying Nautobot...'']) = (r1, tr1)"
    by force
  then have tr1: "commands_run tr1 = commands_run tr @ [compose_command ctx ?down None]"
    by (auto simp: docker_compose_plain commands_run_append dest!: context_run_trace)
  have "\<exists>ext. tr' = tr1 @ ext"
  proof (cases r1)
    case (Inl e)
    with assms dc show ?thesis
      by (simp add: destroy_def pbind_def lift_def bind_def py_print_def)
  next
    case (Inr x)
    with assms dc show ?thesis
      by (auto simp: destroy_def pbind_def lift_def bind_def py_print_def ret_def raise_def
                 Let_def
               split: if_splits prod.splits sum.splits option.splits
               dest!: docker_compose_ext await_healthy_container_ext context_run_trace)
  qed
  with tr1 show ?thesis
    by (auto simp: commands_run_append)
qed

text \<open>
  C2, as stated, fails: not every guard raises before an external command is invoked.
  \<open>destroy\<close> with a database file and without volumes raises only after
  \<^verbatim>\<open>docker compose ... down --remove-orphans\<close> has run, and \<open>import_db\<close> without a database
  backend raises only after it has stopped Nautobot, started the database service and
  waited for it.
\<close>

theorem guards_after_commands_counterexample:
  \<open>destroy example_host postgres_config False ''dump.sql'' [] =
     Some (Inl (ValueError
             ''Cannot specify `--no-volumes` and `--import-db-file` arguments at the same time.''),
           [Print ''Destroying Nautobot...'',
            Print ''Running docker compose command "down --remove-orphans "'',
            Run (compose_command postgres_config ''down --remove-orphans '' None)
              [(''env'', KwDict (build_env postgres_config []))]])
   \<and> import_db example_host no_db_config [] ''dump.sql'' [] =
     Some (Inl (ValueError ''Unsupported database backend.''),
           [Print ''Running docker compose command "stop -- nautobot worker beat"'',
            Run (compose_command no_db_config ''stop -- nautobot worker beat'' None)
              [(''env'', KwDict (build_env no_db_config []))],
            Print ''Starting Nautobot in detached mode...'',
            Print ''Running docker compose command "up --detach"'',
            Run (compose_command no_db_config ''up --detach'' (Some ''db''))
              [(''env'', KwDict (build_env no_db_config []))],
            Print ''Running docker compose command "ps -q -- db"'',
            Run (compose_command no_db_config ''ps -q -- db'' None)
              [(''env'', KwDict (build_env no_db_config [])),
               (''pty'', KwBool False), (''echo'', KwBool False), (''hide'', KwBool True)],
            Run (''docker inspect --format='' @ apos @ ''{{.State.Health.Status}}'' @ apos
                   @ '' 4f2a9c'')
              [(''pty'', KwBool False), (''echo'', KwBool False), (''hide'', KwBool True)]])\<close>
  using import_db_unsupported
          [where tr = "[]" and db_name = "[]" and input_file = "''dump.sql''",
           OF example_host_import_db_preparation example_configs(1,2)]
  by (simp add: destroy_def pbind_def lift_def bind_def py_print_def raise_def
        docker_compose_plain context_run_def example_host_sel)

text \<open>
  C2, amended. The guards of \<open>dbshell\<close> (both sources given, an output file without a
  source, no database backend) and the rejection of an invalid truthy value of \<^verbatim>\<open>local\<close> in
  \<open>run_command\<close> and \<open>docs\<close> raise with the trace unchanged: no external command has been
  invoked. \<open>import_db\<close> and \<open>backup_db\<close> raise a \<^verbatim>\<open>ValueError\<close> only after docker compose has
  been invoked: the first command of \<open>import_db\<close> is
  \<^verbatim>\<open>stop -- nautobot worker beat\<close>, that of \<open>backup_db\<close> is \<^verbatim>\<open>up --detach db\<close>.
\<close>

theorem guards_and_external_commands:
  "(input_file \<noteq> [] \<and> query \<noteq> [] \<longrightarrow>
      dbshell h ctx db_name input_file output_file query tr =
        (Inl (ValueError ''Cannot specify both, `input_file` and `query` arguments''), tr))
   \<and> (output_file \<noteq> [] \<and> input_file = [] \<and> query = [] \<longrightarrow>
      dbshell h ctx db_name input_file output_file query tr =
        (Inl (ValueError ''`output_file` argument requires `input_file` or `query` argument''),
         tr))
   \<and> (\<not> (input_file \<noteq> [] \<and> query \<noteq> [])
      \<and> \<not> (output_file \<noteq> [] \<and> input_file = [] \<and> query = [])
      \<and> \<not> is_compose_included ctx ''mysql'' \<and> \<not> is_compose_included ctx ''postgres'' \<longrightarrow>
      dbshell h ctx db_name input_file output_file query tr =
        (Inl (ValueError ''Unsupported database backend.''), tr))
   \<and> (is_truthy (local ctx) = Inl e \<longrightarrow>
      run_command h ctx command kwargs tr = (Inl e, tr) \<and> docs h ctx tr = (Inl e, tr))
   \<and> (import_db h ctx db_name input_file tr = Some (Inl (ValueError m), tr') \<longrightarrow>
      (\<exists>rest. commands_run tr' =
         commands_run tr @ compose_command ctx ''stop -- nautobot worker beat'' None # rest))
   \<and> (backup_db h ctx db_name output_file readable tr = Some (Inl (ValueError m), tr') \<longrightarrow>
      (\<exists>rest. commands_run tr' =
         commands_run tr @ compose_command ctx ''up --detach'' (Some ''db'') # rest))"
proof (intro conjI impI)
  assume "import_db h ctx db_name input_file tr = Some (Inl (ValueError m), tr')"
  then have "import_db_preparation h ctx tr = Some (Inr (), tr')"
    by (simp add: import_db_ValueError)
  then show "\<exists>rest. commands_run tr' =
      commands_run tr @ compose_command ctx ''stop -- nautobot worker beat'' None # rest"
    by (rule import_db_preparation_first_command)
next
  assume "backup_db h ctx db_name output_file readable tr = Some (Inl (ValueError m), tr')"
  then have "backup_db_preparation h ctx tr = Some (Inr (), tr')"
    by (simp add: backup_db_ValueError)
  then show "\<exists>rest. commands_run tr' =
      commands_run tr @ compose_command ctx ''up --detach'' (Some ''db'') # rest"
    by (rule backup_db_preparation_first_command)
qed (simp_all add: dbshell_both_sources dbshell_output_without_source dbshell_unsupported
       run_command_invalid_truthy docs_invalid_truthy)

theorem guards_and_external_commands_witness:
  "dbshell example_host postgres_config [] ''in.sql'' [] ''SELECT 1'' [] =
     (Inl (ValueError ''Cannot specify both, `input_file` and `query` arguments''), [])
   \<and> dbshell example_host postgres_config [] [] ''out.txt'' [] [] =
     (Inl (ValueError ''`output_file` argument requires `input_file` or `query` argument''), [])
   \<and> dbshell example_host no_db_config [] [] [] ''SELECT 1'' [] =
     (Inl (ValueError ''Unsupported database backend.''), [])
   \<and> run_command example_host (postgres_config\<lparr>local := PyStr ''maybe''\<rparr>) ''bash'' [] [] =
     (Inl (ValueError ''Invalid truthy value: `maybe`''), [])
   \<and> docs example_host (postgres_config\<lparr>local := PyStr ''maybe''\<rparr>) [] =
     (Inl (ValueError ''Invalid truthy value: `maybe`''), [])
   \<and> (\<exists>tr' rest.
         import_db example_host no_db_config [] ''dump.sql'' [] =
           Some (Inl (ValueError ''Unsupported database backend.''), tr')
         \<and> commands_run tr' =
            compose_command no_db_config ''stop -- nautobot worker beat'' None # rest)
   \<and> (\<exists>tr' rest.
         backup_db example_host no_db_config [] ''dump.sql'' True [] =
           Some (Inl (ValueError ''Unsupported database backend.''), tr')
         \<and> commands_run tr' =
            compose_command no_db_config ''up --detach'' (Some ''db'') # rest)"
proof -
  let ?U = "''Unsupported database backend.''"
  let ?maybe = "postgres_config\<lparr>local := PyStr ''maybe''\<rparr>"
  have truthy: "is_truthy (local ?maybe) = Inl (ValueError ''Invalid truthy value: `maybe`'')"
    by (simp add: is_truthy_PyStr str_lower_def lower_char_def)
  obtain p where i: "import_db example_host no_db_config [] ''dump.sql'' [] =
      Some (Inl (ValueError ?U), p)"
    using import_db_unsupported [OF example_host_import_db_preparation example_configs(1,2)]
    by blast
  obtain q where b: "backup_db example_host no_db_config [] ''dump.sql'' True [] =
      Some (Inl (ValueError ?U), q)"
    using backup_db_unsupported [OF example_host_backup_db_preparation example_configs(1,2)]
    by blast
  have "dbshell example_host postgres_config [] ''in.sql'' [] ''SELECT 1'' [] =
     (Inl (ValueError ''Cannot specify both, `input_file` and `query` arguments''), [])"
    using guards_and_external_commands
      [where h = example_host and ctx = postgres_config and db_name = "[]"
         and input_file = "''in.sql''" and output_file = "[]" and query = "''SELECT 1''"
         and tr = "[]"]
    by simp
  moreover have "dbshell example_host postgres_config [] [] ''out.txt'' [] [] =
     (Inl (ValueError ''`output_file` argument requires `input_file` or `query` argument''), [])"
    using guards_and_external_commands
      [where h = example_host and ctx = postgres_config and db_name = "[]"
         and input_file = "[]" and output_file = "''out.txt''" and query = "[]"
         and tr = "[]"]
    by simp
  moreover have "dbshell example_host no_db_config [] [] [] ''SELECT 1'' [] =
     (Inl (ValueError ?U), [])"
    using guards_and_external_commands
      [where h = example_host and ctx = no_db_config and db_name = "[]"
         and input_file = "[]" and output_file = "[]" and query = "''SELECT 1''"
         and tr = "[]"]
    by (simp add: example_configs)
  moreover have
    "run_command example_host ?maybe ''bash'' [] [] =
       (Inl (ValueError ''Invalid truthy value: `maybe`''), [])
     \<and> docs example_host ?maybe [] = (Inl (ValueError ''Invalid truthy value: `maybe`''), [])"
    using truthy guards_and_external_commands
      [where h = example_host and ctx = ?maybe and tr = "[]" and command = "''bash''"
         and kwargs = "[]" and e = "ValueError ''Invalid truthy value: `maybe`''"]
    by blast
  moreover have "\<exists>rest. commands_run p =
      compose_command no_db_config ''stop -- nautobot worker beat'' None # rest"
    using i guards_and_external_commands
      [where h = example_host and ctx = no_db_config and db_name = "[]"
         and input_file = "''dump.sql''" and tr = "[]" and m = ?U and tr' = p]
    by simp
  moreover have "\<exists>rest. commands_run q =
      compose_command no_db_config ''up --detach'' (Some ''db'') # rest"
    using b guards_and_external_commands
      [where h = example_host and ctx = no_db_config and db_name = "[]"
         and output_file = "''dump.sql''" and readable = True and tr = "[]" and m = ?U
         and tr' = q]
    by simp
  ultimately show ?thesis
    using i b by blast
qed

section \<open>The schema migration\<close>

lemma apply_operations_0003:
  "apply_operations operations s =
     (case s ''synclogentry'' of
        None \<Rightarrow> Inl (LookupError ''synclogentry'')
      | Some fs \<Rightarrow>
          if fs ''message'' = None then Inl (FieldDoesNotExist ''synclogentry'' ''message'')
          else if fs ''object_repr'' = None
            then Inl (FieldDoesNotExist ''synclogentry'' ''object_repr'')
          else Inr (s(''synclogentry'' \<mapsto>
                 fs(''message'' \<mapsto> models_TextField\<lparr>blank := True\<rparr>,
                    ''object_repr'' \<mapsto>
                      models_TextField
                        \<lparr>blank := True, declared_default := Some [], editable := False\<rparr>))))"
  by (auto simp add: operations_def split: option.splits)

lemma migrate_0002: "apply_operations operations schema_0002 = Inr schema_0003"
  by (simp add: apply_operations_0003 schema_0002_def schema_0003_def)

text \<open>
  C5. After migration 0003 has been applied, the fields \<open>message\<close> and \<open>object_repr\<close> of
  \<open>synclogentry\<close> are both free-text fields of unrestricted length (\<^verbatim>\<open>TextField\<close>) that default
  to the empty string, and \<open>object_repr\<close> is not editable. (\<open>message\<close> declares no default;
  a text field that is not nullable then defaults to the empty string.)
\<close>

theorem migration_0003_fields:
  assumes "apply_operations operations s = Inr s'"
  shows "\<exists>fs message object_repr.
           s' ''synclogentry'' = Some fs
           \<and> fs ''message'' = Some message \<and> fs ''object_repr'' = Some object_repr
           \<and> column message = TextField \<and> column object_repr = TextField
           \<and> get_default message = Some [] \<and> get_default object_repr = Some []
           \<and> \<not> editable object_repr"
proof -
  let ?message = "models_TextField\<lparr>blank := True\<rparr>"
  let ?object_repr =
    "models_TextField\<lparr>blank := True, declared_default := Some [], editable := False\<rparr>"
  from assms obtain fs where
    "s' = s(''synclogentry'' \<mapsto> fs(''message'' \<mapsto> ?message, ''object_repr'' \<mapsto> ?object_repr))"
    by (auto simp add: apply_operations_0003 split: option.splits if_splits)
  then show ?thesis
    by (intro exI [of _ "fs(''message'' \<mapsto> ?message, ''object_repr'' \<mapsto> ?object_repr)"]
          exI [of _ ?message] exI [of _ ?object_repr])
       (simp add: models_TextField_def get_default_def)
qed

theorem migration_0003_fields_witness:
  "apply_operations operations schema_0002 = Inr schema_0003
   \<and> column (the (the (schema_0002 ''synclogentry'') ''message'')) = CharField 511
   \<and> (\<exists>fs message object_repr.
         schema_0003 ''synclogentry'' = Some fs
         \<and> fs ''message'' = Some message \<and> fs ''object_repr'' = Some object_repr
         \<and> column message = TextField \<and> column object_repr = TextField
         \<and> get_default message = Some [] \<and> get_default object_repr = Some []
         \<and> \<not> editable object_repr)"
proof -
  have "apply_operations operations schema_0002 = Inr schema_0003"
    by (simp add: migrate_0002)
  with migration_0003_fields [of schema_0002 schema_0003] show ?thesis
    by (simp add: schema_0002_def)
qed

text \<open>
  C6. Applying the two \<^verbatim>\<open>AlterField\<close> operations of migration 0003 to a schema that already
  has the target definitions leaves the schema unchanged; in particular, applying the
  migration a second time changes nothing.
\<close>

theorem migration_0003_idempotent:
  "(s ''synclogentry'' = Some fs
      \<and> fs ''message'' = Some (models_TextField\<lparr>blank := True\<rparr>)
      \<and> fs ''object_repr'' =
          Some (models_TextField\<lparr>blank := True, declared_default := Some [], editable := False\<rparr>)
      \<longrightarrow> apply_operations operations s = Inr s)
   \<and> (apply_operations operations s = Inr s' \<longrightarrow> apply_operations operations s' = Inr s')"
proof (intro conjI impI)
  assume a: "s ''synclogentry'' = Some fs
      \<and> fs ''message'' = Some (models_TextField\<lparr>blank := True\<rparr>)
      \<and> fs ''object_repr'' =
          Some (models_TextField\<lparr>blank := True, declared_default := Some [], editable := False\<rparr>)"
  then have "fs(''message'' \<mapsto> models_TextField\<lparr>blank := True\<rparr>,
                ''object_repr'' \<mapsto>
                  models_TextField
                    \<lparr>blank := True, declared_default := Some [], editable := False\<rparr>) = fs"
    by (simp add: fun_upd_idem)
  with a show "apply_operations operations s = Inr s"
    by (simp add: apply_operations_0003 fun_upd_idem)
next
  assume "apply_operations operations s = Inr s'"
  then show "apply_operations operations s' = Inr s'"
    by (auto simp add: apply_operations_0003 split: option.splits if_splits)
qed

theorem migration_0003_idempotent_witness:
  "schema_0003 ''synclogentry'' =
     Some [''message'' \<mapsto> models_TextField\<lparr>blank := True\<rparr>,
           ''object_repr'' \<mapsto>
             models_TextField\<lparr>blank := True, declared_default := Some [], editable := False\<rparr>]
   \<and> apply_operations operations schema_0003 = Inr schema_0003
   \<and> apply_operations operations schema_0002 = Inr schema_0003
   \<and> schema_0003 \<noteq> schema_0002"
proof -
  have "schema_0003 ''synclogentry'' \<noteq> schema_0002 ''synclogentry''"
    by (auto simp add: schema_0003_def schema_0002_def models_TextField_def
          dest!: fun_cong [where x = "''message''"])
  then have "schema_0003 \<noteq> schema_0002"
    by auto
  moreover have "apply_operations operations schema_0003 = Inr schema_0003"
    using migration_0003_idempotent
      [of schema_0003
          "[''message'' \<mapsto> models_TextField\<lparr>blank := True\<rparr>,
            ''object_repr'' \<mapsto>
              models_TextField\<lparr>blank := True, declared_default := Some [], editable := False\<rparr>]"]
    by (simp add: schema_0003_def)
  moreover have "apply_operations operations schema_0002 = Inr schema_0003"
    by (simp add: migrate_0002)
  ultimately show ?thesis
    using migration_0003_idempotent [of schema_0002 _ schema_0003]
    by (simp add: schema_0003_def)
qed

section \<open>The lifecycle hook of the app configuration\<close>

text \<open>
  C7. \<open>ready\<close> does nothing beyond calling the \<open>ready\<close> of the base class: the object is left
  exactly as the base class left it, \<open>ready\<close> raises exactly what the base class raised, and
  otherwise it returns (\<^verbatim>\<open>None\<close>).
\<close>

theorem ready_only_delegates:
  "snd (ready super_ready self) = snd (super_ready self)
   \<and> (fst (ready super_ready self) = Inl e \<longleftrightarrow> fst (super_ready self) = Inl e)
   \<and> (fst (ready super_ready self) = Inr () \<longleftrightarrow> (\<exists>r. fst (super_ready self) = Inr r))"
  by (cases "super_ready self"; cases "fst (super_ready self)") (auto simp add: ready_def)

end
